theory Spec2Isabelle
  imports Main
begin

section \<open>Metadata handlers of the chart registry (pkg/api/v1/handlers/manifests.go)\<close>

text \<open>
  The handlers resolve a space, a chart and a version through the storage layer, list
  metadata with paging, pick the latest version of a chart, and rewrite the metadata or
  the values of a stored chart archive. The storage layer, the archive codec, the
  JSON-to-YAML conversion and the request parsing are collaborators that live outside
  this file: they are fields of the record \<open>env\<close>, and every theorem below holds for all
  of them.
\<close>

subsection \<open>Data\<close>

type_synonym bytes = string

text \<open>
  The typed errors of pkg/errors, each with the arguments of its \<open>Format\<close> call. An error
  produced by a collaborator is \<open>BackendError\<close>. A Go panic (nil pointer dereference,
  slice bounds out of range) is the outcome \<open>RuntimePanic\<close>.
\<close>

datatype error =
    ErrorContentNotFound string
  | ErrorParamValueError string string string
  | ErrorParamTypeError string string string
  | ErrorInternalTypeError string string string
  | BackendError string
  | RuntimePanic string

text \<open>
  \<open>chart.Metadata\<close> of helm: the identity (\<open>Name\<close>, \<open>Version\<close>) and descriptive fields,
  which the handlers never inspect.
\<close>

record chart_metadata =
  Name :: string
  Version :: string
  Description :: string
  Keywords :: "string list"
  Home :: string
  Sources :: "string list"
  Maintainers :: "(string \<times> string) list"
  Engine :: string
  Icon :: string
  ApiVersion :: string

text \<open>\<open>chart.Config\<close>: the values of a chart; only \<open>Raw\<close> is written by the handlers.\<close>

record config =
  Raw :: string

text \<open>
  \<open>chart.Chart\<close>, the decoded archive. \<open>Metadata\<close> and \<open>Values\<close> are pointers in Go and
  may be nil (\<open>None\<close>); templates and files are the payload, which the handlers never
  touch.
\<close>

record chart =
  chart_Metadata :: "chart_metadata option"
  chart_Values :: "config option"
  chart_Templates :: "(string \<times> bytes) list"
  chart_Files :: "(string \<times> bytes) list"

text \<open>
  \<open>storage.Metadata\<close>: it embeds \<open>chart.Metadata\<close> (the handlers read \<open>md.Metadata\<close>, and
  \<open>md.Name\<close>, \<open>md.Version\<close> are the promoted fields of the embedded struct).
\<close>

record storage_metadata =
  Metadata :: chart_metadata

text \<open>Handles of the storage layer, with what \<open>chart.Name()\<close> and \<open>version.Number()\<close> return.\<close>

type_synonym space = string

record chart_handle =
  chart_Space :: string
  chart_Name :: string

record version_handle =
  version_Chart :: chart_handle
  version_Number :: string

text \<open>
  The collaborators. \<open>'ctx\<close> is the request context, \<open>'w\<close> the state of the storage
  backend. Reads used by the listing handlers do not change the backend, so they take
  no state; \<open>GetContent\<close> reads the state and \<open>PutContent\<close> returns the new one together
  with its error, if any.
\<close>

record ('ctx, 'w) env =
  getSpaceName :: "'ctx \<Rightarrow> error + string"
  getSpaceAndChartName :: "'ctx \<Rightarrow> error + (string \<times> string)"
  getPaging :: "'ctx \<Rightarrow> error + (int \<times> int)"
  getMetadata :: "'ctx \<Rightarrow> error + storage_metadata"
  getValues :: "'ctx \<Rightarrow> error + bytes"
  resolveVersion :: "'ctx \<Rightarrow> error + (space \<times> chart_handle \<times> version_handle)"
  GetSpace :: "string \<Rightarrow> error + space"
  GetChart :: "string \<Rightarrow> string \<Rightarrow> error + chart_handle"
  space_List :: "space \<Rightarrow> error + string list"
  space_VersionMetadata :: "space \<Rightarrow> error + storage_metadata list"
  chart_List :: "chart_handle \<Rightarrow> error + string list"
  chart_Version :: "chart_handle \<Rightarrow> string \<Rightarrow> error + version_handle"
  chart_VersionMetadata :: "chart_handle \<Rightarrow> error + storage_metadata list"
  version_Metadata :: "version_handle \<Rightarrow> error + storage_metadata"
  version_Values :: "version_handle \<Rightarrow> error + bytes"
  GetContent :: "version_handle \<Rightarrow> 'w \<Rightarrow> error + bytes"
  PutContent :: "version_handle \<Rightarrow> bytes \<Rightarrow> 'w \<Rightarrow> error option \<times> 'w"
  LoadArchive :: "bytes \<Rightarrow> error + chart"
  Archive :: "chart \<Rightarrow> error + bytes"
  CoalesceMetadata :: "chart \<Rightarrow> error + storage_metadata"
  JSONToYAML :: "bytes \<Rightarrow> error + bytes"

text \<open>
  The state a handler runs in: the backend, and the content calls made so far, in
  order. The log is what makes "\<open>PutContent\<close> is never called" a statement.
\<close>

datatype call = GetContentCall version_handle | PutContentCall version_handle bytes

record 'w state =
  world :: 'w
  calls :: "call list"

definition doGetContent :: "('ctx, 'w) env \<Rightarrow> version_handle \<Rightarrow> 'w state \<Rightarrow> (error + bytes) \<times> 'w state" where
  "doGetContent E v st =
     (GetContent E v (world st), st\<lparr>calls := calls st @ [GetContentCall v]\<rparr>)"

definition doPutContent :: "('ctx, 'w) env \<Rightarrow> version_handle \<Rightarrow> bytes \<Rightarrow> 'w state \<Rightarrow> error option \<times> 'w state" where
  "doPutContent E v d st =
     (case PutContent E v d (world st) of
        (r, w') \<Rightarrow> (r, st\<lparr>world := w', calls := calls st @ [PutContentCall v d]\<rparr>))"

subsection \<open>Paging\<close>

text \<open>
  Modelled from the spec: \<open>standardizeRange\<close> is called by the listing handlers but is not
  part of manifests.go. Section 4.1: \<open>start\<close> is clamped to \<open>[0, total]\<close>; a \<open>limit \<le> 0\<close>
  extends the window to \<open>total\<close>; otherwise \<open>to = min (start + limit) total\<close>. The integers
  are unbounded, as in the spec's arithmetic.
\<close>

definition standardizeRange :: "int \<Rightarrow> int \<Rightarrow> int \<Rightarrow> int \<times> int" where
  "standardizeRange n start limit =
     (let lo = (if start < 0 then 0 else if start > n then n else start);
          hi = (if limit \<le> 0 then n else min (lo + limit) n)
      in (lo, hi))"

text \<open>
  The Go slice expression \<open>xs[lo:hi]\<close>: it panics unless \<open>0 \<le> lo \<le> hi\<close> and \<open>hi\<close> is within
  the slice (the bound checked here is the length).
\<close>

definition slice :: "'a list \<Rightarrow> int \<Rightarrow> int \<Rightarrow> error + 'a list" where
  "slice xs lo hi =
     (if 0 \<le> lo \<and> lo \<le> hi \<and> hi \<le> int (length xs)
      then Inr (take (nat (hi - lo)) (drop (nat lo) xs))
      else Inl (RuntimePanic ''slice bounds out of range''))"

text \<open>
  The three lines every listing handler ends with: \<open>total := len(metadata)\<close>, the window,
  and \<open>return total, metadata[start:end], nil\<close>.
\<close>

definition page :: "storage_metadata list \<Rightarrow> int \<Rightarrow> int \<Rightarrow> error + (int \<times> storage_metadata list)" where
  "page metadata start limit =
     (let n = int (length metadata) in
      case standardizeRange n start limit of
        (start', end') \<Rightarrow>
          (case slice metadata start' end' of
             Inl e \<Rightarrow> Inl e
           | Inr p \<Rightarrow> Inr (n, p)))"

subsection \<open>Latest version of a chart\<close>

definition getLatestMetadata :: "('ctx, 'w) env \<Rightarrow> string \<Rightarrow> string \<Rightarrow> error + storage_metadata" where
  "getLatestMetadata E spaceName chartName =
     (case GetChart E spaceName chartName of
        Inl e \<Rightarrow> Inl e
      | Inr ch \<Rightarrow>
          (case chart_List E ch of
             Inl e \<Rightarrow> Inl e
           | Inr versionNumbers \<Rightarrow>
               if length versionNumbers \<le> 0 then Inl (ErrorContentNotFound ''metadata'')
               else
                 (case chart_Version E ch (versionNumbers ! (length versionNumbers - 1)) of
                    Inl e \<Rightarrow> Inl e
                  | Inr version \<Rightarrow> version_Metadata E version)))"

definition GetLatestMetadataInChart :: "('ctx, 'w) env \<Rightarrow> 'ctx \<Rightarrow> error + storage_metadata" where
  "GetLatestMetadataInChart E ctx =
     (case getSpaceAndChartName E ctx of
        Inl e \<Rightarrow> Inl e
      | Inr (spaceName, chartName) \<Rightarrow> getLatestMetadata E spaceName chartName)"

subsection \<open>Listing handlers\<close>

definition ListMetadataInSpace :: "('ctx, 'w) env \<Rightarrow> 'ctx \<Rightarrow> error + (int \<times> storage_metadata list)" where
  "ListMetadataInSpace E ctx =
     (case getSpaceName E ctx of
        Inl e \<Rightarrow> Inl e
      | Inr spaceName \<Rightarrow>
          (case getPaging E ctx of
             Inl e \<Rightarrow> Inl e
           | Inr (start, limit) \<Rightarrow>
               (case GetSpace E spaceName of
                  Inl e \<Rightarrow> Inl e
                | Inr sp \<Rightarrow>
                    (case space_VersionMetadata E sp of
                       Inl e \<Rightarrow> Inl e
                     | Inr metadata \<Rightarrow> page metadata start limit))))"

text \<open>The loop of \<open>ListLatestMetadataInSpace\<close>: it returns at the first chart that fails.\<close>

fun latestOfCharts :: "('ctx, 'w) env \<Rightarrow> string \<Rightarrow> string list \<Rightarrow> error + storage_metadata list" where
  "latestOfCharts E spaceName [] = Inr []"
| "latestOfCharts E spaceName (chartName # rest) =
     (case getLatestMetadata E spaceName chartName of
        Inl e \<Rightarrow> Inl e
      | Inr md \<Rightarrow>
          (case latestOfCharts E spaceName rest of
             Inl e \<Rightarrow> Inl e
           | Inr mds \<Rightarrow> Inr (md # mds)))"

definition ListLatestMetadataInSpace :: "('ctx, 'w) env \<Rightarrow> 'ctx \<Rightarrow> error + (int \<times> storage_metadata list)" where
  "ListLatestMetadataInSpace E ctx =
     (case getSpaceName E ctx of
        Inl e \<Rightarrow> Inl e
      | Inr spaceName \<Rightarrow>
          (case getPaging E ctx of
             Inl e \<Rightarrow> Inl e
           | Inr (start, limit) \<Rightarrow>
               (case GetSpace E spaceName of
                  Inl e \<Rightarrow> Inl e
                | Inr sp \<Rightarrow>
                    (case space_List E sp of
                       Inl e \<Rightarrow> Inl e
                     | Inr chartNames \<Rightarrow>
                         (case latestOfCharts E spaceName chartNames of
                            Inl e \<Rightarrow> Inl e
                          | Inr metadata \<Rightarrow> page metadata start limit)))))"

definition ListMetadataInChart :: "('ctx, 'w) env \<Rightarrow> 'ctx \<Rightarrow> error + (int \<times> storage_metadata list)" where
  "ListMetadataInChart E ctx =
     (case getSpaceAndChartName E ctx of
        Inl e \<Rightarrow> Inl e
      | Inr (spaceName, chartName) \<Rightarrow>
          (case getPaging E ctx of
             Inl e \<Rightarrow> Inl e
           | Inr (start, limit) \<Rightarrow>
               (case GetChart E spaceName chartName of
                  Inl e \<Rightarrow> Inl e
                | Inr ch \<Rightarrow>
                    (case chart_VersionMetadata E ch of
                       Inl e \<Rightarrow> Inl e
                     | Inr metadata \<Rightarrow> page metadata start limit))))"

subsection \<open>Mutation handlers\<close>

text \<open>
  Modelled from the spec: \<open>managerHelper\<close> is called by the mutation handlers but is not
  part of manifests.go. Section 4.3: it resolves the space, the chart and the version of
  the request in this order, stops at the first level that fails, has no side effect, and
  then runs the handler on the three handles. The handler is a Go closure that returns an
  error and assigns the result variable of the enclosing function; \<open>r0\<close> is the value of
  that variable when the closure does not run (nil).
\<close>

definition managerHelper ::
  "('ctx, 'w) env \<Rightarrow> 'ctx \<Rightarrow> 'r \<Rightarrow>
   (space \<Rightarrow> chart_handle \<Rightarrow> version_handle \<Rightarrow> 'w state \<Rightarrow> ('r \<times> error option) \<times> 'w state) \<Rightarrow>
   'w state \<Rightarrow> ('r \<times> error option) \<times> 'w state" where
  "managerHelper E ctx r0 handler st =
     (case resolveVersion E ctx of
        Inl e \<Rightarrow> ((r0, Some e), st)
      | Inr (sp, ch, version) \<Rightarrow> handler sp ch version st)"

text \<open>\<open>fmt.Sprintf("%s/%s", chart.Name(), version.Number())\<close>\<close>

definition versionPath :: "chart_handle \<Rightarrow> version_handle \<Rightarrow> string" where
  "versionPath ch version = chart_Name ch @ ''/'' @ version_Number version"

text \<open>
  The closure of \<open>UpdateMetadata\<close>. The result variable \<open>metadata\<close> stays nil (\<open>None\<close>) until
  the last statement, which assigns what \<open>CoalesceMetadata\<close> returns.
\<close>

definition updateMetadataHandler ::
  "('ctx, 'w) env \<Rightarrow> 'ctx \<Rightarrow> space \<Rightarrow> chart_handle \<Rightarrow> version_handle \<Rightarrow> 'w state \<Rightarrow>
   (storage_metadata option \<times> error option) \<times> 'w state" where
  "updateMetadataHandler E ctx sp ch version st =
     (case getMetadata E ctx of
        Inl e \<Rightarrow> ((None, Some e), st)
      | Inr md \<Rightarrow>
          (case doGetContent E version st of
             (Inl e, st1) \<Rightarrow> ((None, Some e), st1)
           | (Inr data, st1) \<Rightarrow>
               (case LoadArchive E data of
                  Inl _ \<Rightarrow>
                    ((None, Some (ErrorInternalTypeError (versionPath ch version) ''chart'' ''unknown'')), st1)
                | Inr origin \<Rightarrow>
                    (case chart_Metadata origin of
                       None \<Rightarrow> ((None, Some (RuntimePanic ''nil pointer dereference'')), st1)
                     | Some om \<Rightarrow>
                         if Name om \<noteq> Name (Metadata md) then
                           ((None, Some (ErrorParamValueError ''name'' (Name om) (Name (Metadata md)))), st1)
                         else if Version om \<noteq> Version (Metadata md) then
                           ((None, Some (ErrorParamValueError ''version'' (Version om) (Version (Metadata md)))), st1)
                         else
                           (let origin' = origin\<lparr>chart_Metadata := Some (Metadata md)\<rparr> in
                            case Archive E origin' of
                              Inl e \<Rightarrow> ((None, Some e), st1)
                            | Inr data' \<Rightarrow>
                                (case doPutContent E version data' st1 of
                                   (Some e, st2) \<Rightarrow> ((None, Some e), st2)
                                 | (None, st2) \<Rightarrow>
                                     (case CoalesceMetadata E origin' of
                                        Inl e \<Rightarrow> ((None, Some e), st2)
                                      | Inr m \<Rightarrow> ((Some m, None), st2))))))))"

definition UpdateMetadata ::
  "('ctx, 'w) env \<Rightarrow> 'ctx \<Rightarrow> 'w state \<Rightarrow> (storage_metadata option \<times> error option) \<times> 'w state" where
  "UpdateMetadata E ctx st = managerHelper E ctx None (updateMetadataHandler E ctx) st"

text \<open>
  The closure of \<open>UpdateValues\<close>. Its first statement assigns the result variable \<open>values\<close>,
  which keeps the payload on every later path; the nil slice is \<open>[]\<close>.
\<close>

definition updateValuesHandler ::
  "('ctx, 'w) env \<Rightarrow> 'ctx \<Rightarrow> space \<Rightarrow> chart_handle \<Rightarrow> version_handle \<Rightarrow> 'w state \<Rightarrow>
   (bytes \<times> error option) \<times> 'w state" where
  "updateValuesHandler E ctx sp ch version st =
     (case getValues E ctx of
        Inl e \<Rightarrow> (([], Some e), st)
      | Inr values \<Rightarrow>
          (case JSONToYAML E values of
             Inl _ \<Rightarrow> ((values, Some (ErrorParamTypeError ''values'' ''json'' ''unknown'')), st)
           | Inr yamlValues \<Rightarrow>
               (case doGetContent E version st of
                  (Inl e, st1) \<Rightarrow> ((values, Some e), st1)
                | (Inr data, st1) \<Rightarrow>
                    (case LoadArchive E data of
                       Inl _ \<Rightarrow>
                         ((values, Some (ErrorInternalTypeError (versionPath ch version) ''chart'' ''unknown'')), st1)
                     | Inr origin \<Rightarrow>
                         (case chart_Values origin of
                            None \<Rightarrow> ((values, Some (RuntimePanic ''nil pointer dereference'')), st1)
                          | Some cfg \<Rightarrow>
                              (let origin' = origin\<lparr>chart_Values := Some (cfg\<lparr>Raw := yamlValues\<rparr>)\<rparr> in
                               case Archive E origin' of
                                 Inl e \<Rightarrow> ((values, Some e), st1)
                               | Inr data' \<Rightarrow>
                                   (case doPutContent E version data' st1 of
                                      (r, st2) \<Rightarrow> ((values, r), st2))))))))"

definition UpdateValues ::
  "('ctx, 'w) env \<Rightarrow> 'ctx \<Rightarrow> 'w state \<Rightarrow> (bytes \<times> error option) \<times> 'w state" where
  "UpdateValues E ctx st = managerHelper E ctx [] (updateValuesHandler E ctx) st"

subsection \<open>What a run left in the store\<close>

text \<open>
  \<open>unwritten st st'\<close>: between \<open>st\<close> and \<open>st'\<close> the backend did not change and no
  \<open>PutContent\<close> call was made.
\<close>

fun isPut :: "call \<Rightarrow> bool" where
  "isPut (PutContentCall v d) = True"
| "isPut (GetContentCall v) = False"

definition unwritten :: "'w state \<Rightarrow> 'w state \<Rightarrow> bool" where
  "unwritten st st' \<longleftrightarrow>
     world st' = world st \<and> \<not> list_ex isPut (drop (length (calls st)) (calls st'))"

subsection \<open>An in-memory registry, for concrete runs\<close>

text \<open>
  A request carries its addressing, paging and payload; the backend maps a version to its
  archive bytes. The catalogue \<open>cat\<close> lists the charts of the space with their version
  numbers, in the order the backend returns them.
\<close>

record request =
  req_space :: string
  req_chart :: string
  req_version :: string
  req_start :: int
  req_limit :: int
  req_metadata :: storage_metadata
  req_values :: bytes

definition mkMetadata :: "string \<Rightarrow> string \<Rightarrow> string \<Rightarrow> chart_metadata" where
  "mkMetadata n v d =
     \<lparr>Name = n, Version = v, Description = d, Keywords = [], Home = [], Sources = [],
      Maintainers = [], Engine = [], Icon = [], ApiVersion = ''v1''\<rparr>"

definition memChart :: "string \<Rightarrow> string \<Rightarrow> chart_handle" where
  "memChart s c = \<lparr>chart_Space = s, chart_Name = c\<rparr>"

definition memVersion :: "string \<Rightarrow> string \<Rightarrow> string \<Rightarrow> version_handle" where
  "memVersion s c v = \<lparr>version_Chart = memChart s c, version_Number = v\<rparr>"

definition memVersionMetadata :: "chart_handle \<Rightarrow> string \<Rightarrow> storage_metadata" where
  "memVersionMetadata ch v = \<lparr>Metadata = mkMetadata (chart_Name ch) v []\<rparr>"

definition nginxChart :: chart where
  "nginxChart =
     \<lparr>chart_Metadata = Some (mkMetadata ''nginx'' ''1.0.0'' ''web server''),
      chart_Values = Some \<lparr>Raw = ''replicas: 1''\<rparr>,
      chart_Templates = [(''templates/deploy.yaml'', ''kind: Deployment'')],
      chart_Files = []\<rparr>"

definition memLoadArchive :: "bytes \<Rightarrow> error + chart" where
  "memLoadArchive d =
     (if d = ''nginx-1.0.0.tgz'' then Inr nginxChart
      else if d = ''bare.tgz'' then Inr (nginxChart\<lparr>chart_Values := None\<rparr>)
      else if d = ''nodesc.tgz'' then
        Inr (nginxChart\<lparr>chart_Metadata := Some (mkMetadata ''nginx'' ''1.0.0'' [])\<rparr>)
      else Inl (BackendError ''not a chart archive''))"

definition memArchive :: "chart \<Rightarrow> error + bytes" where
  "memArchive c =
     (case chart_Metadata c of
        None \<Rightarrow> Inl (BackendError ''chart metadata missing'')
      | Some m \<Rightarrow>
          if Description m = [] then Inl (BackendError ''description required'')
          else Inr (Name m @ ''-'' @ Version m @ '':'' @ Description m @ '':'' @
                    (case chart_Values c of None \<Rightarrow> [] | Some cfg \<Rightarrow> Raw cfg)))"

definition memJSONToYAML :: "bytes \<Rightarrow> error + bytes" where
  "memJSONToYAML j =
     (if j = ''[1,2]'' then Inr ''- 1 - 2''
      else if j = ''{}'' then Inr ''{}''
      else Inl (BackendError ''invalid json''))"

definition memEnv :: "(string \<times> string list) list \<Rightarrow> (request, version_handle \<rightharpoonup> bytes) env" where
  "memEnv cat =
     \<lparr>getSpaceName = (\<lambda>r. Inr (req_space r)),
      getSpaceAndChartName = (\<lambda>r. Inr (req_space r, req_chart r)),
      getPaging = (\<lambda>r. Inr (req_start r, req_limit r)),
      getMetadata = (\<lambda>r. Inr (req_metadata r)),
      getValues = (\<lambda>r. Inr (req_values r)),
      resolveVersion = (\<lambda>r. Inr (req_space r, memChart (req_space r) (req_chart r),
                                    memVersion (req_space r) (req_chart r) (req_version r))),
      GetSpace = (\<lambda>n. Inr n),
      GetChart = (\<lambda>s c. Inr (memChart s c)),
      space_List = (\<lambda>sp. Inr (map fst cat)),
      space_VersionMetadata =
        (\<lambda>sp. Inr (concat (map (\<lambda>(c, vs). map (memVersionMetadata (memChart sp c)) vs) cat))),
      chart_List =
        (\<lambda>ch. case map_of cat (chart_Name ch) of
                 None \<Rightarrow> Inl (BackendError ''no such chart'')
               | Some vs \<Rightarrow> Inr vs),
      chart_Version = (\<lambda>ch v. Inr \<lparr>version_Chart = ch, version_Number = v\<rparr>),
      chart_VersionMetadata =
        (\<lambda>ch. case map_of cat (chart_Name ch) of
                 None \<Rightarrow> Inl (BackendError ''no such chart'')
               | Some vs \<Rightarrow> Inr (map (memVersionMetadata ch) vs)),
      version_Metadata = (\<lambda>v. Inr (memVersionMetadata (version_Chart v) (version_Number v))),
      version_Values = (\<lambda>v. Inr []),
      GetContent =
        (\<lambda>v w. case w v of
                  None \<Rightarrow> Inl (ErrorContentNotFound ''content'')
                | Some d \<Rightarrow> Inr d),
      PutContent = (\<lambda>v d w. (None, w(v \<mapsto> d))),
      LoadArchive = memLoadArchive,
      Archive = memArchive,
      CoalesceMetadata =
        (\<lambda>c. case chart_Metadata c of
                None \<Rightarrow> Inl (BackendError ''chart metadata missing'')
              | Some m \<Rightarrow> Inr \<lparr>Metadata = m\<rparr>),
      JSONToYAML = memJSONToYAML\<rparr>"

definition memRequest :: "string \<Rightarrow> string \<Rightarrow> string \<Rightarrow> request" where
  "memRequest s c v =
     \<lparr>req_space = s, req_chart = c, req_version = v, req_start = 0, req_limit = 0,
      req_metadata = \<lparr>Metadata = mkMetadata c v ''updated''\<rparr>, req_values = ''[1,2]''\<rparr>"

section \<open>Properties\<close>

subsection \<open>Paging\<close>

lemma standardizeRange_bounds:
  assumes "0 \<le> n" and "standardizeRange n start limit = (lo, hi)"
  shows "0 \<le> lo \<and> lo \<le> hi \<and> hi \<le> n"
  using assms by (auto simp: standardizeRange_def Let_def split: if_splits)

lemma page_window:
  assumes "standardizeRange (int (length metadata)) start limit = (lo, hi)"
  shows "page metadata start limit =
           Inr (int (length metadata), take (nat (hi - lo)) (drop (nat lo) metadata))"
proof -
  have "0 \<le> lo \<and> lo \<le> hi \<and> hi \<le> int (length metadata)"
    using standardizeRange_bounds [OF _ assms] by simp
  then show ?thesis
    using assms by (simp add: page_def slice_def)
qed

subsection \<open>Latest version\<close>

lemma getLatestMetadata_resolved:
  assumes "GetChart E spaceName chartName = Inr ch" and "chart_List E ch = Inr vs"
  shows "getLatestMetadata E spaceName chartName =
           (if vs = [] then Inl (ErrorContentNotFound ''metadata'')
            else case chart_Version E ch (last vs) of
                   Inl e \<Rightarrow> Inl e
                 | Inr version \<Rightarrow> version_Metadata E version)"
  using assms by (simp add: getLatestMetadata_def last_conv_nth)

text \<open>
  C6. When the chart resolves and its version list is read, the latest-version resolution
  (\<open>getLatestMetadata\<close>, and \<open>GetLatestMetadataInChart\<close> on top of it) fails with the
  content-not-found error for "metadata" if the list is empty, and otherwise returns what
  the backend gives as the metadata of the last element of the list, in backend order.
\<close>

theorem latest_is_last_of_backend_list:
  assumes "GetChart E spaceName chartName = Inr ch" and "chart_List E ch = Inr vs"
  shows "(vs = [] \<longrightarrow>
            getLatestMetadata E spaceName chartName = Inl (ErrorContentNotFound ''metadata'')) \<and>
         (vs \<noteq> [] \<longrightarrow>
            getLatestMetadata E spaceName chartName =
              (case chart_Version E ch (last vs) of
                 Inl e \<Rightarrow> Inl e
               | Inr version \<Rightarrow> version_Metadata E version)) \<and>
         (getSpaceAndChartName E ctx = Inr (spaceName, chartName) \<longrightarrow>
            GetLatestMetadataInChart E ctx = getLatestMetadata E spaceName chartName)"
  using getLatestMetadata_resolved [OF assms] by (simp add: GetLatestMetadataInChart_def)

theorem latest_is_last_of_backend_list_witness:
  "getLatestMetadata (memEnv [(''p1'', [''1.0.0'', ''1.1.0'', ''2.0.0'']), (''p0'', [])]) ''s1'' ''p1'' =
     Inr (memVersionMetadata (memChart ''s1'' ''p1'') ''2.0.0'') \<and>
   getLatestMetadata (memEnv [(''p1'', [''1.0.0'', ''1.1.0'', ''2.0.0'']), (''p0'', [])]) ''s1'' ''p0'' =
     Inl (ErrorContentNotFound ''metadata'') \<and>
   GetLatestMetadataInChart (memEnv [(''p1'', [''1.0.0'', ''1.1.0'', ''2.0.0'']), (''p0'', [])])
     (memRequest ''s1'' ''p1'' []) =
     Inr (memVersionMetadata (memChart ''s1'' ''p1'') ''2.0.0'')"
proof -
  let ?E = "memEnv [(''p1'', [''1.0.0'', ''1.1.0'', ''2.0.0'']), (''p0'', [])]"
  have g1: "GetChart ?E ''s1'' ''p1'' = Inr (memChart ''s1'' ''p1'')"
    by (simp add: memEnv_def)
  have l1: "chart_List ?E (memChart ''s1'' ''p1'') = Inr [''1.0.0'', ''1.1.0'', ''2.0.0'']"
    by (simp add: memEnv_def memChart_def)
  have g0: "GetChart ?E ''s1'' ''p0'' = Inr (memChart ''s1'' ''p0'')"
    by (simp add: memEnv_def)
  have l0: "chart_List ?E (memChart ''s1'' ''p0'') = Inr []"
    by (simp add: memEnv_def memChart_def)
  have n1: "getSpaceAndChartName ?E (memRequest ''s1'' ''p1'' []) = Inr (''s1'', ''p1'')"
    by (simp add: memEnv_def memRequest_def)
  have v1: "chart_Version ?E (memChart ''s1'' ''p1'') ''2.0.0'' =
              Inr \<lparr>version_Chart = memChart ''s1'' ''p1'', version_Number = ''2.0.0''\<rparr>"
    by (simp add: memEnv_def)
  have m1: "version_Metadata ?E \<lparr>version_Chart = memChart ''s1'' ''p1'', version_Number = ''2.0.0''\<rparr> =
              Inr (memVersionMetadata (memChart ''s1'' ''p1'') ''2.0.0'')"
    by (simp add: memEnv_def)
  show ?thesis
    using latest_is_last_of_backend_list [OF g1 l1, of "memRequest ''s1'' ''p1'' []"]
      latest_is_last_of_backend_list [OF g0 l0, of "memRequest ''s1'' ''p0'' []"]
    by (simp add: n1 v1 m1)
qed

text \<open>
  C7. For every \<open>total \<ge> 0\<close> and all \<open>start\<close>, \<open>limit\<close> the window satisfies
  \<open>0 \<le> from \<le> to \<le> total\<close>, where \<open>from\<close> is \<open>start\<close> clamped to \<open>[0, total]\<close> and \<open>to\<close> is
  \<open>total\<close> when \<open>limit \<le> 0\<close> and \<open>min (from + limit) total\<close> otherwise; a \<open>start\<close> beyond \<open>total\<close>
  gives the empty window at \<open>total\<close>. Each of the three listing handlers
  (\<open>ListMetadataInSpace\<close>, \<open>ListLatestMetadataInSpace\<close>, \<open>ListMetadataInChart\<close>), once it has
  its list of metadata, returns \<open>total\<close> = the length of that list together with exactly
  the elements from \<open>from\<close> up to \<open>to\<close> of it, and never fails on the slice. In particular
  \<open>ListMetadataInChart\<close> with \<open>start = 5\<close>, \<open>limit = 10\<close> over a chart with three versions
  returns the empty page with \<open>total = 3\<close>.
\<close>

theorem paging_window_within_total:
  assumes "0 \<le> n"
  shows "(case standardizeRange n start limit of
            (lo, hi) \<Rightarrow>
              0 \<le> lo \<and> lo \<le> hi \<and> hi \<le> n \<and>
              lo = max 0 (min start n) \<and>
              hi = (if limit \<le> 0 then n else min (lo + limit) n) \<and>
              (n < start \<longrightarrow> lo = n \<and> hi = n)) \<and>
         (n = int (length metadata) \<longrightarrow>
            (case standardizeRange n start limit of
               (lo, hi) \<Rightarrow>
                 page metadata start limit =
                   Inr (n, take (nat (hi - lo)) (drop (nat lo) metadata)) \<and>
                 (getSpaceName E ctx = Inr spaceName \<and> getPaging E ctx = Inr (start, limit) \<and>
                  GetSpace E spaceName = Inr sp \<and>
                  space_VersionMetadata E sp = Inr metadata \<longrightarrow>
                    ListMetadataInSpace E ctx =
                      Inr (n, take (nat (hi - lo)) (drop (nat lo) metadata))) \<and>
                 (getSpaceName E ctx = Inr spaceName \<and> getPaging E ctx = Inr (start, limit) \<and>
                  GetSpace E spaceName = Inr sp \<and> space_List E sp = Inr chartNames \<and>
                  latestOfCharts E spaceName chartNames = Inr metadata \<longrightarrow>
                    ListLatestMetadataInSpace E ctx =
                      Inr (n, take (nat (hi - lo)) (drop (nat lo) metadata))) \<and>
                 (getSpaceAndChartName E ctx = Inr (spaceName, chartName) \<and>
                  getPaging E ctx = Inr (start, limit) \<and>
                  GetChart E spaceName chartName = Inr ch \<and>
                  chart_VersionMetadata E ch = Inr metadata \<longrightarrow>
                    ListMetadataInChart E ctx =
                      Inr (n, take (nat (hi - lo)) (drop (nat lo) metadata))))) \<and>
         (getSpaceAndChartName E ctx = Inr (spaceName, chartName) \<and>
          getPaging E ctx = Inr (5, 10) \<and>
          GetChart E spaceName chartName = Inr ch \<and>
          chart_VersionMetadata E ch = Inr metadata \<and> length metadata = 3 \<longrightarrow>
            ListMetadataInChart E ctx = Inr (3, []))"
proof (intro conjI impI)
  show "case standardizeRange n start limit of
          (lo, hi) \<Rightarrow>
            0 \<le> lo \<and> lo \<le> hi \<and> hi \<le> n \<and>
            lo = max 0 (min start n) \<and>
            hi = (if limit \<le> 0 then n else min (lo + limit) n) \<and>
            (n < start \<longrightarrow> lo = n \<and> hi = n)"
    using assms by (auto simp: standardizeRange_def Let_def)
next
  assume n: "n = int (length metadata)"
  obtain lo hi where w: "standardizeRange (int (length metadata)) start limit = (lo, hi)"
    by (cases "standardizeRange (int (length metadata)) start limit") auto
  let ?res = "Inr (n, take (nat (hi - lo)) (drop (nat lo) metadata)) ::
                error + (int \<times> storage_metadata list)"
  have pg: "page metadata start limit = ?res"
    using page_window [OF w] n by simp
  have inSpace: "ListMetadataInSpace E ctx = ?res"
    if "getSpaceName E ctx = Inr spaceName \<and> getPaging E ctx = Inr (start, limit) \<and>
        GetSpace E spaceName = Inr sp \<and> space_VersionMetadata E sp = Inr metadata"
    using that pg by (simp add: ListMetadataInSpace_def)
  have latest: "ListLatestMetadataInSpace E ctx = ?res"
    if "getSpaceName E ctx = Inr spaceName \<and> getPaging E ctx = Inr (start, limit) \<and>
        GetSpace E spaceName = Inr sp \<and> space_List E sp = Inr chartNames \<and>
        latestOfCharts E spaceName chartNames = Inr metadata"
    using that pg by (simp add: ListLatestMetadataInSpace_def)
  have inChart: "ListMetadataInChart E ctx = ?res"
    if "getSpaceAndChartName E ctx = Inr (spaceName, chartName) \<and>
        getPaging E ctx = Inr (start, limit) \<and>
        GetChart E spaceName chartName = Inr ch \<and> chart_VersionMetadata E ch = Inr metadata"
    using that pg by (simp add: ListMetadataInChart_def)
  show "case standardizeRange n start limit of
          (lo, hi) \<Rightarrow>
            page metadata start limit =
              Inr (n, take (nat (hi - lo)) (drop (nat lo) metadata)) \<and>
            (getSpaceName E ctx = Inr spaceName \<and> getPaging E ctx = Inr (start, limit) \<and>
             GetSpace E spaceName = Inr sp \<and>
             space_VersionMetadata E sp = Inr metadata \<longrightarrow>
               ListMetadataInSpace E ctx =
                 Inr (n, take (nat (hi - lo)) (drop (nat lo) metadata))) \<and>
            (getSpaceName E ctx = Inr spaceName \<and> getPaging E ctx = Inr (start, limit) \<and>
             GetSpace E spaceName = Inr sp \<and> space_List E sp = Inr chartNames \<and>
             latestOfCharts E spaceName chartNames = Inr metadata \<longrightarrow>
               ListLatestMetadataInSpace E ctx =
                 Inr (n, take (nat (hi - lo)) (drop (nat lo) metadata))) \<and>
            (getSpaceAndChartName E ctx = Inr (spaceName, chartName) \<and>
             getPaging E ctx = Inr (start, limit) \<and>
             GetChart E spaceName chartName = Inr ch \<and>
             chart_VersionMetadata E ch = Inr metadata \<longrightarrow>
               ListMetadataInChart E ctx =
                 Inr (n, take (nat (hi - lo)) (drop (nat lo) metadata)))"
    unfolding n w prod.case
    using pg inSpace latest inChart unfolding n by blast
next
  assume h: "getSpaceAndChartName E ctx = Inr (spaceName, chartName) \<and>
             getPaging E ctx = Inr (5, 10) \<and>
             GetChart E spaceName chartName = Inr ch \<and>
             chart_VersionMetadata E ch = Inr metadata \<and> length metadata = 3"
  have "standardizeRange (int (length metadata)) 5 10 = (3, 3)"
    using h by (simp add: standardizeRange_def)
  then have "page metadata 5 10 = Inr (3, [])"
    using page_window [of metadata 5 10 3 3] h by simp
  then show "ListMetadataInChart E ctx = Inr (3, [])"
    using h by (simp add: ListMetadataInChart_def)
qed

theorem paging_window_within_total_witness:
  "(0::int) \<le> 3 \<and> standardizeRange 3 5 10 = (3, 3) \<and>
   ListMetadataInChart (memEnv [(''p1'', [''1.0.0'', ''1.1.0'', ''2.0.0''])])
     ((memRequest ''s1'' ''p1'' [])\<lparr>req_start := 5, req_limit := 10\<rparr>) = Inr (3, []) \<and>
   ListMetadataInChart (memEnv [(''p1'', [''1.0.0'', ''1.1.0'', ''2.0.0''])])
     ((memRequest ''s1'' ''p1'' [])\<lparr>req_start := - 2, req_limit := 2\<rparr>) =
     Inr (3, [memVersionMetadata (memChart ''s1'' ''p1'') ''1.0.0'',
              memVersionMetadata (memChart ''s1'' ''p1'') ''1.1.0'']) \<and>
   ListMetadataInSpace (memEnv [(''p1'', [''1.0.0'', ''1.1.0'', ''2.0.0''])])
     ((memRequest ''s1'' ''p1'' [])\<lparr>req_start := 1, req_limit := 1\<rparr>) =
     Inr (3, [memVersionMetadata (memChart ''s1'' ''p1'') ''1.1.0'']) \<and>
   ListLatestMetadataInSpace (memEnv [(''p1'', [''1.0.0'', ''1.1.0'', ''2.0.0''])])
     ((memRequest ''s1'' ''p1'' [])\<lparr>req_start := 0, req_limit := 5\<rparr>) =
     Inr (1, [memVersionMetadata (memChart ''s1'' ''p1'') ''2.0.0''])"
proof -
  let ?E = "memEnv [(''p1'', [''1.0.0'', ''1.1.0'', ''2.0.0''])] ::
              (request, version_handle \<rightharpoonup> bytes) env"
  let ?ch = "memChart ''s1'' ''p1''"
  let ?mds = "map (memVersionMetadata ?ch) [''1.0.0'', ''1.1.0'', ''2.0.0'']"
  let ?last = "[memVersionMetadata ?ch ''2.0.0'']"
  let ?r1 = "(memRequest ''s1'' ''p1'' [])\<lparr>req_start := 5, req_limit := 10\<rparr>"
  let ?r2 = "(memRequest ''s1'' ''p1'' [])\<lparr>req_start := - 2, req_limit := 2\<rparr>"
  let ?r3 = "(memRequest ''s1'' ''p1'' [])\<lparr>req_start := 1, req_limit := 1\<rparr>"
  let ?r4 = "(memRequest ''s1'' ''p1'' [])\<lparr>req_start := 0, req_limit := 5\<rparr>"
  have z3: "(0::int) \<le> 3" and z1: "(0::int) \<le> 1"
    by simp_all
  have sc: "getSpaceAndChartName ?E ?r1 = Inr (''s1'', ''p1'')"
      "getSpaceAndChartName ?E ?r2 = Inr (''s1'', ''p1'')"
    and sn: "getSpaceName ?E ?r3 = Inr ''s1''" "getSpaceName ?E ?r4 = Inr ''s1''"
    and pg: "getPaging ?E ?r1 = Inr (5, 10)" "getPaging ?E ?r2 = Inr (- 2, 2)"
      "getPaging ?E ?r3 = Inr (1, 1)" "getPaging ?E ?r4 = Inr (0, 5)"
    by (simp_all add: memEnv_def memRequest_def)
  have gc: "GetChart ?E ''s1'' ''p1'' = Inr ?ch"
    and gs: "GetSpace ?E ''s1'' = Inr ''s1''"
    and sl: "space_List ?E ''s1'' = Inr [''p1'']"
    by (simp_all add: memEnv_def)
  have cv: "chart_VersionMetadata ?E ?ch = Inr ?mds"
    by (simp add: memEnv_def memChart_def)
  have sv: "space_VersionMetadata ?E ''s1'' = Inr ?mds"
    by (simp add: memEnv_def)
  have lt: "latestOfCharts ?E ''s1'' [''p1''] = Inr ?last"
    by (simp add: getLatestMetadata_def memEnv_def memChart_def)
  have len3: "(3::int) = int (length ?mds)" and len1: "(1::int) = int (length ?last)"
    by simp_all
  have w1: "standardizeRange 3 5 10 = (3, 3)" and w2: "standardizeRange 3 (- 2) 2 = (0, 2)"
    and w3: "standardizeRange 3 1 1 = (1, 2)" and w4: "standardizeRange 1 0 5 = (0, 1)"
    by (simp_all add: standardizeRange_def)
  note t1 = paging_window_within_total
    [OF z3, where start = 5 and limit = 10 and metadata = ?mds and E = ?E and ctx = ?r1
      and spaceName = "''s1''" and chartName = "''p1''" and ch = ?ch, THEN conjunct2, THEN conjunct2]
  note t2 = paging_window_within_total
    [OF z3, where start = "- 2" and limit = 2 and metadata = ?mds and E = ?E and ctx = ?r2
      and spaceName = "''s1''" and chartName = "''p1''" and ch = ?ch,
      THEN conjunct2, THEN conjunct1, rule_format, OF len3, unfolded w2 prod.case]
  note t3 = paging_window_within_total
    [OF z3, where start = 1 and limit = 1 and metadata = ?mds and E = ?E and ctx = ?r3
      and spaceName = "''s1''" and sp = "''s1''",
      THEN conjunct2, THEN conjunct1, rule_format, OF len3, unfolded w3 prod.case]
  note t4 = paging_window_within_total
    [OF z1, where start = 0 and limit = 5 and metadata = ?last and E = ?E and ctx = ?r4
      and spaceName = "''s1''" and sp = "''s1''" and chartNames = "[''p1'']",
      THEN conjunct2, THEN conjunct1, rule_format, OF len1, unfolded w4 prod.case]
  have r1: "ListMetadataInChart ?E ?r1 = Inr (3, [])"
    using t1 sc(1) pg(1) gc cv by simp
  have r2: "ListMetadataInChart ?E ?r2 =
              Inr (3, [memVersionMetadata ?ch ''1.0.0'', memVersionMetadata ?ch ''1.1.0''])"
    using t2 sc(2) pg(2) gc cv by simp
  have r3: "ListMetadataInSpace ?E ?r3 = Inr (3, [memVersionMetadata ?ch ''1.1.0''])"
    using t3 sn(1) pg(3) gs sv by simp
  have r4: "ListLatestMetadataInSpace ?E ?r4 = Inr (1, ?last)"
    using t4 sn(2) pg(4) gs sl lt by simp
  from z3 w1 r1 r2 r3 r4 show ?thesis
    by (intro conjI)
qed

subsection \<open>Latest metadata of every chart of a space\<close>

lemma latestOfCharts_all:
  assumes "\<forall>c \<in> set names. \<exists>m. getLatestMetadata E spaceName c = Inr m"
  shows "\<exists>mds. latestOfCharts E spaceName names = Inr mds \<and>
               map Inr mds = map (getLatestMetadata E spaceName) names"
  using assms
proof (induction names)
  case Nil
  then show ?case by simp
next
  case (Cons c names)
  from Cons.prems obtain m where m: "getLatestMetadata E spaceName c = Inr m"
    by auto
  from Cons obtain mds where "latestOfCharts E spaceName names = Inr mds"
    and "map Inr mds = map (getLatestMetadata E spaceName) names"
    by auto
  with m show ?case by simp
qed

lemma latestOfCharts_first_failure:
  assumes "\<forall>p \<in> set pre. \<exists>m. getLatestMetadata E spaceName p = Inr m"
    and "getLatestMetadata E spaceName c = Inl e"
  shows "latestOfCharts E spaceName (pre @ c # post) = Inl e"
  using assms by (induction pre) (auto split: sum.splits)

lemma latestOfCharts_some_failure:
  assumes "c \<in> set names" and "getLatestMetadata E spaceName c = Inl e"
  shows "\<exists>e'. latestOfCharts E spaceName names = Inl e'"
  using assms by (induction names) (auto split: sum.splits)

lemma getLatestMetadata_available:
  assumes "GetChart E spaceName c = Inr ch" and "chart_List E ch = Inr vs" and "vs \<noteq> []"
    and "chart_Version E ch (last vs) = Inr v" and "version_Metadata E v = Inr m"
  shows "getLatestMetadata E spaceName c = Inr m"
  using getLatestMetadata_resolved [OF assms(1,2)] assms(3-5) by simp

text \<open>
  C9, as the code has it. In a space whose listed charts all resolve, have at least one
  version, and whose last version's metadata can be read, \<open>ListLatestMetadataInSpace\<close>
  returns \<open>total\<close> = the number of charts together with the paging window of the list
  that has one entry per chart, in listing order, each entry being the metadata of the
  last version of that chart. The whole list is returned when \<open>start \<le> 0\<close> and \<open>limit \<le> 0\<close>.
\<close>

theorem latest_in_space_is_window_of_one_per_chart:
  assumes "getSpaceName E ctx = Inr spaceName"
    and "getPaging E ctx = Inr (start, limit)"
    and "GetSpace E spaceName = Inr sp"
    and "space_List E sp = Inr names"
    and "\<forall>c \<in> set names. \<exists>ch vs v m.
           GetChart E spaceName c = Inr ch \<and> chart_List E ch = Inr vs \<and> vs \<noteq> [] \<and>
           chart_Version E ch (last vs) = Inr v \<and> version_Metadata E v = Inr m"
  shows "\<exists>mds pg.
           length mds = length names \<and>
           (\<forall>i < length names. \<exists>ch vs v.
              GetChart E spaceName (names ! i) = Inr ch \<and> chart_List E ch = Inr vs \<and>
              chart_Version E ch (last vs) = Inr v \<and> version_Metadata E v = Inr (mds ! i)) \<and>
           ListLatestMetadataInSpace E ctx = Inr (int (length names), pg) \<and>
           (case standardizeRange (int (length names)) start limit of
              (lo, hi) \<Rightarrow> pg = take (nat (hi - lo)) (drop (nat lo) mds)) \<and>
           (start \<le> 0 \<and> limit \<le> 0 \<longrightarrow> pg = mds)"
proof -
  have ok: "\<forall>c \<in> set names. \<exists>m. getLatestMetadata E spaceName c = Inr m"
    using assms(5) getLatestMetadata_available by blast
  from latestOfCharts_all [OF ok] obtain mds where
    mds: "latestOfCharts E spaceName names = Inr mds"
    and eq: "map Inr mds = map (getLatestMetadata E spaceName) names"
    by blast
  have len: "length mds = length names"
    using eq by (metis length_map)
  have each: "\<exists>ch vs v.
      GetChart E spaceName (names ! i) = Inr ch \<and> chart_List E ch = Inr vs \<and>
      chart_Version E ch (last vs) = Inr v \<and> version_Metadata E v = Inr (mds ! i)"
    if i: "i < length names" for i
  proof -
    from i assms(5) obtain ch vs v m where
      a: "GetChart E spaceName (names ! i) = Inr ch" "chart_List E ch = Inr vs" "vs \<noteq> []"
         "chart_Version E ch (last vs) = Inr v" "version_Metadata E v = Inr m"
      by (metis nth_mem)
    have "getLatestMetadata E spaceName (names ! i) = Inr m"
      using getLatestMetadata_available [OF a] .
    moreover have "map Inr mds ! i = map (getLatestMetadata E spaceName) names ! i"
      using eq by simp
    then have "Inr (mds ! i) = getLatestMetadata E spaceName (names ! i)"
      using i len by simp
    ultimately have "mds ! i = m" by simp
    with a show ?thesis by blast
  qed
  obtain lo hi where w: "standardizeRange (int (length mds)) start limit = (lo, hi)"
    by (cases "standardizeRange (int (length mds)) start limit") auto
  let ?pg = "take (nat (hi - lo)) (drop (nat lo) mds)"
  have res: "ListLatestMetadataInSpace E ctx = Inr (int (length names), ?pg)"
    using assms(1-4) mds page_window [OF w] len
    by (simp add: ListLatestMetadataInSpace_def)
  have full: "?pg = mds" if "start \<le> 0 \<and> limit \<le> 0"
    using that w by (auto simp: standardizeRange_def Let_def)
  show ?thesis
    using len each res w full by (intro exI [of _ mds] exI [of _ ?pg]) auto
qed

lemma memEnv_latest:
  "map_of cat c = Some vs \<Longrightarrow> vs \<noteq> [] \<Longrightarrow>
   getLatestMetadata (memEnv cat) s c = Inr (memVersionMetadata (memChart s c) (last vs))"
  by (simp add: getLatestMetadata_def memEnv_def memChart_def last_conv_nth)

lemma memEnv_latest_empty:
  "map_of cat c = Some [] \<Longrightarrow>
   getLatestMetadata (memEnv cat) s c = Inl (ErrorContentNotFound ''metadata'')"
  by (simp add: getLatestMetadata_def memEnv_def memChart_def)

theorem latest_in_space_is_window_of_one_per_chart_witness:
  "ListLatestMetadataInSpace (memEnv [(''p1'', [''1.0.0'', ''2.0.0''])]) (memRequest ''s1'' ''p1'' []) =
     Inr (1, [memVersionMetadata (memChart ''s1'' ''p1'') ''2.0.0''])"
proof -
  let ?E = "memEnv [(''p1'', [''1.0.0'', ''2.0.0''])]"
  let ?r = "memRequest ''s1'' ''p1'' []"
  have h1: "getSpaceName ?E ?r = Inr ''s1''"
    by (simp add: memEnv_def memRequest_def)
  have h2: "getPaging ?E ?r = Inr (0, 0)"
    by (simp add: memEnv_def memRequest_def)
  have h3: "GetSpace ?E ''s1'' = Inr ''s1''"
    by (simp add: memEnv_def)
  have h4: "space_List ?E ''s1'' = Inr [''p1'']"
    by (simp add: memEnv_def)
  have g: "GetChart ?E ''s1'' ''p1'' = Inr (memChart ''s1'' ''p1'')"
    by (simp add: memEnv_def)
  have l: "chart_List ?E (memChart ''s1'' ''p1'') = Inr [''1.0.0'', ''2.0.0'']"
    by (simp add: memEnv_def memChart_def)
  have v: "chart_Version ?E (memChart ''s1'' ''p1'') ''2.0.0'' = Inr (memVersion ''s1'' ''p1'' ''2.0.0'')"
    by (simp add: memEnv_def memVersion_def)
  have m: "version_Metadata ?E (memVersion ''s1'' ''p1'' ''2.0.0'') =
             Inr (memVersionMetadata (memChart ''s1'' ''p1'') ''2.0.0'')"
    by (simp add: memEnv_def memVersion_def)
  have h5: "\<forall>c \<in> set [''p1'']. \<exists>ch vs v m.
              GetChart ?E ''s1'' c = Inr ch \<and> chart_List ?E ch = Inr vs \<and> vs \<noteq> [] \<and>
              chart_Version ?E ch (last vs) = Inr v \<and> version_Metadata ?E v = Inr m"
    using g l v m by simp
  from latest_in_space_is_window_of_one_per_chart [OF h1 h2 h3 h4 h5]
  obtain mds pg where len: "length mds = length [''p1'']"
    and each: "\<forall>i < length [''p1'']. \<exists>ch vs v.
                 GetChart ?E ''s1'' ([''p1''] ! i) = Inr ch \<and> chart_List ?E ch = Inr vs \<and>
                 chart_Version ?E ch (last vs) = Inr v \<and> version_Metadata ?E v = Inr (mds ! i)"
    and res: "ListLatestMetadataInSpace ?E ?r = Inr (int (length [''p1'']), pg)"
    and full: "(0::int) \<le> 0 \<and> (0::int) \<le> 0 \<longrightarrow> pg = mds"
    by blast
  from each have "\<exists>ch vs v.
      GetChart ?E ''s1'' ''p1'' = Inr ch \<and> chart_List ?E ch = Inr vs \<and>
      chart_Version ?E ch (last vs) = Inr v \<and> version_Metadata ?E v = Inr (mds ! 0)"
    by simp
  then have "mds ! 0 = memVersionMetadata (memChart ''s1'' ''p1'') ''2.0.0''"
    using g l v m by auto
  moreover from len obtain x where "mds = [x]"
    by (cases mds) auto
  ultimately have "mds = [memVersionMetadata (memChart ''s1'' ''p1'') ''2.0.0'']"
    by simp
  with res full show ?thesis by simp
qed

text \<open>
  The claim as written, that one entry per chart is returned, fails on a request that pages:
  over the space with the single chart \<open>p1\<close> (versions \<open>1.0.0\<close>, \<open>2.0.0\<close>), \<open>start = 1\<close> gives
  \<open>total = 1\<close> and no entry.
\<close>

theorem latest_in_space_paged_counterexample:
  "space_List (memEnv [(''p1'', [''1.0.0'', ''2.0.0''])]) ''s1'' = Inr [''p1''] \<and>
   chart_List (memEnv [(''p1'', [''1.0.0'', ''2.0.0''])]) (memChart ''s1'' ''p1'') =
     Inr [''1.0.0'', ''2.0.0''] \<and>
   ListLatestMetadataInSpace (memEnv [(''p1'', [''1.0.0'', ''2.0.0''])])
     ((memRequest ''s1'' ''p1'' [])\<lparr>req_start := 1, req_limit := 10\<rparr>) = Inr (1, [])"
proof -
  let ?E = "memEnv [(''p1'', [''1.0.0'', ''2.0.0''])]"
  have a: "getLatestMetadata ?E ''s1'' ''p1'' = Inr (memVersionMetadata (memChart ''s1'' ''p1'') ''2.0.0'')"
    using memEnv_latest [of "[(''p1'', [''1.0.0'', ''2.0.0''])]" "''p1''" "[''1.0.0'', ''2.0.0'']" "''s1''"]
    by simp
  have b: "page [memVersionMetadata (memChart ''s1'' ''p1'') ''2.0.0''] 1 10 = Inr (1, [])"
    by (simp add: page_def standardizeRange_def slice_def)
  have "ListLatestMetadataInSpace ?E ((memRequest ''s1'' ''p1'' [])\<lparr>req_start := 1, req_limit := 10\<rparr>) =
          Inr (1, [])"
  proof -
    let ?r = "(memRequest ''s1'' ''p1'' [])\<lparr>req_start := 1, req_limit := 10\<rparr>"
    have h1: "getSpaceName ?E ?r = Inr ''s1''"
      by (simp add: memEnv_def memRequest_def)
    have h2: "getPaging ?E ?r = Inr (1, 10)"
      by (simp add: memEnv_def memRequest_def)
    have h3: "GetSpace ?E ''s1'' = Inr ''s1''"
      by (simp add: memEnv_def)
    have h4: "space_List ?E ''s1'' = Inr [''p1'']"
      by (simp add: memEnv_def)
    show ?thesis
      by (simp add: ListLatestMetadataInSpace_def h1 h2 h3 h4 a b)
  qed
  then show ?thesis
    by (simp add: memEnv_def memChart_def)
qed

text \<open>
  The claim as written names the content-not-found error for every space that lists a
  chart without versions. Over a listing \<open>[ghost, p0]\<close> in which \<open>p0\<close> has no version and
  the version list of \<open>ghost\<close>, listed first, cannot be read, the error returned is the
  backend's error for \<open>ghost\<close>.
\<close>

theorem zero_version_after_failing_chart_counterexample:
  "space_List ((memEnv [(''p0'', [])])\<lparr>space_List := (\<lambda>sp. Inr [''ghost'', ''p0''])\<rparr>) ''s1'' =
     Inr [''ghost'', ''p0''] \<and>
   GetChart ((memEnv [(''p0'', [])])\<lparr>space_List := (\<lambda>sp. Inr [''ghost'', ''p0''])\<rparr>) ''s1'' ''p0'' =
     Inr (memChart ''s1'' ''p0'') \<and>
   chart_List ((memEnv [(''p0'', [])])\<lparr>space_List := (\<lambda>sp. Inr [''ghost'', ''p0''])\<rparr>)
     (memChart ''s1'' ''p0'') = Inr [] \<and>
   ListLatestMetadataInSpace
     ((memEnv [(''p0'', [])])\<lparr>space_List := (\<lambda>sp. Inr [''ghost'', ''p0''])\<rparr>)
     (memRequest ''s1'' ''p0'' []) = Inl (BackendError ''no such chart'') \<and>
   BackendError ''no such chart'' \<noteq> ErrorContentNotFound ''metadata''"
proof -
  let ?E = "(memEnv [(''p0'', [])])\<lparr>space_List := (\<lambda>sp. Inr [''ghost'', ''p0''])\<rparr> ::
              (request, version_handle \<rightharpoonup> bytes) env"
  let ?r = "memRequest ''s1'' ''p0'' []"
  have h1: "getSpaceName ?E ?r = Inr ''s1''"
    by (simp add: memEnv_def memRequest_def)
  have h2: "getPaging ?E ?r = Inr (0, 0)"
    by (simp add: memEnv_def memRequest_def)
  have h3: "GetSpace ?E ''s1'' = Inr ''s1''"
    by (simp add: memEnv_def)
  have h4: "space_List ?E ''s1'' = Inr [''ghost'', ''p0'']"
    by simp
  have h5: "GetChart ?E ''s1'' ''p0'' = Inr (memChart ''s1'' ''p0'')"
    by (simp add: memEnv_def)
  have h6: "chart_List ?E (memChart ''s1'' ''p0'') = Inr []"
    by (simp add: memEnv_def memChart_def)
  have g: "getLatestMetadata ?E ''s1'' ''ghost'' = Inl (BackendError ''no such chart'')"
    by (simp add: getLatestMetadata_def memEnv_def memChart_def)
  have lt: "latestOfCharts ?E ''s1'' [''ghost'', ''p0''] = Inl (BackendError ''no such chart'')"
    by (simp only: latestOfCharts.simps g sum.case)
  have res: "ListLatestMetadataInSpace ?E ?r = Inl (BackendError ''no such chart'')"
    by (simp only: ListLatestMetadataInSpace_def h1 h2 h3 h4 lt sum.case prod.case)
  have ne: "BackendError ''no such chart'' \<noteq> ErrorContentNotFound ''metadata''"
    by simp
  from h4 h5 h6 res ne show ?thesis
    by (intro conjI)
qed

text \<open>
  C10, as the code has it. When the listing of a space contains a chart whose version list
  is empty, \<open>ListLatestMetadataInSpace\<close> fails as a whole: it returns an error and no
  entries, and never skips the chart to return the others. The error is the first one
  met in listing order: the content-not-found error for "metadata" of the first such chart
  when every chart listed before it yields its latest metadata, and otherwise the error
  of the first chart before it that fails.
\<close>

theorem zero_version_chart_fails_whole_listing:
  assumes "getSpaceName E ctx = Inr spaceName"
    and "getPaging E ctx = Inr (start, limit)"
    and "GetSpace E spaceName = Inr sp"
    and "space_List E sp = Inr (pre @ c # post)"
    and "GetChart E spaceName c = Inr ch"
    and "chart_List E ch = Inr []"
  shows "(\<exists>e. ListLatestMetadataInSpace E ctx = Inl e) \<and>
         ((\<forall>p \<in> set pre. \<exists>m. getLatestMetadata E spaceName p = Inr m) \<longrightarrow>
            ListLatestMetadataInSpace E ctx = Inl (ErrorContentNotFound ''metadata'')) \<and>
         (pre = before @ q # after \<and>
          (\<forall>p \<in> set before. \<exists>m. getLatestMetadata E spaceName p = Inr m) \<and>
          getLatestMetadata E spaceName q = Inl e' \<longrightarrow>
            ListLatestMetadataInSpace E ctx = Inl e')"
proof -
  have c: "getLatestMetadata E spaceName c = Inl (ErrorContentNotFound ''metadata'')"
    using getLatestMetadata_resolved [OF assms(5,6)] by simp
  have "c \<in> set (pre @ c # post)" by simp
  from latestOfCharts_some_failure [OF this c]
  obtain e0 where "latestOfCharts E spaceName (pre @ c # post) = Inl e0" ..
  then have any: "\<exists>e. ListLatestMetadataInSpace E ctx = Inl e"
    using assms(1-4) by (simp add: ListLatestMetadataInSpace_def)
  have first: "ListLatestMetadataInSpace E ctx = Inl (ErrorContentNotFound ''metadata'')"
    if "\<forall>p \<in> set pre. \<exists>m. getLatestMetadata E spaceName p = Inr m"
    using latestOfCharts_first_failure [OF that c, of post] assms(1-4)
    by (simp add: ListLatestMetadataInSpace_def)
  have earlier: "ListLatestMetadataInSpace E ctx = Inl e'"
    if "pre = before @ q # after \<and>
        (\<forall>p \<in> set before. \<exists>m. getLatestMetadata E spaceName p = Inr m) \<and>
        getLatestMetadata E spaceName q = Inl e'"
  proof -
    from that have ok: "\<forall>p \<in> set before. \<exists>m. getLatestMetadata E spaceName p = Inr m"
      and q: "getLatestMetadata E spaceName q = Inl e'"
      and pre: "pre @ c # post = before @ q # (after @ c # post)"
      by simp_all
    from latestOfCharts_first_failure [OF ok q, of "after @ c # post"] pre
    have "latestOfCharts E spaceName (pre @ c # post) = Inl e'"
      by simp
    then show ?thesis
      using assms(1-4) by (simp add: ListLatestMetadataInSpace_def)
  qed
  from any first earlier show ?thesis
    by (intro conjI impI)
qed

theorem zero_version_chart_fails_whole_listing_witness:
  "ListLatestMetadataInSpace (memEnv [(''p1'', [''1.0.0'']), (''p0'', []), (''p2'', [''0.1.0''])])
     (memRequest ''s1'' ''p1'' []) = Inl (ErrorContentNotFound ''metadata'')"
proof -
  let ?cat = "[(''p1'', [''1.0.0'']), (''p0'', []), (''p2'', [''0.1.0''])]"
  let ?E = "memEnv ?cat"
  let ?r = "memRequest ''s1'' ''p1'' []"
  have h1: "getSpaceName ?E ?r = Inr ''s1''"
    by (simp add: memEnv_def memRequest_def)
  have h2: "getPaging ?E ?r = Inr (0, 0)"
    by (simp add: memEnv_def memRequest_def)
  have h3: "GetSpace ?E ''s1'' = Inr ''s1''"
    by (simp add: memEnv_def)
  have h4: "space_List ?E ''s1'' = Inr ([''p1''] @ ''p0'' # [''p2''])"
    by (simp add: memEnv_def)
  have h5: "GetChart ?E ''s1'' ''p0'' = Inr (memChart ''s1'' ''p0'')"
    by (simp add: memEnv_def)
  have h6: "chart_List ?E (memChart ''s1'' ''p0'') = Inr []"
    by (simp add: memEnv_def memChart_def)
  have pre: "\<forall>p \<in> set [''p1'']. \<exists>m. getLatestMetadata ?E ''s1'' p = Inr m"
    using memEnv_latest [of ?cat "''p1''" "[''1.0.0'']" "''s1''"] by simp
  show ?thesis
    using zero_version_chart_fails_whole_listing
      [OF h1 h2 h3 h4 h5 h6, THEN conjunct2, THEN conjunct1] pre
    by blast
qed

subsection \<open>Mutation: the steps of \<open>UpdateMetadata\<close>\<close>

lemma unwritten_refl: "unwritten st st"
  by (simp add: unwritten_def)

lemma unwritten_afterGet: "unwritten st (st\<lparr>calls := calls st @ [GetContentCall v]\<rparr>)"
  by (simp add: unwritten_def)

lemma written_afterPut:
  "\<not> unwritten st (st\<lparr>world := w', calls := calls st @ [GetContentCall v, PutContentCall v d]\<rparr>)"
  by (simp add: unwritten_def)

lemma UpdateMetadata_unresolved:
  "resolveVersion E ctx = Inl e \<Longrightarrow> UpdateMetadata E ctx st = ((None, Some e), st)"
  by (simp add: UpdateMetadata_def managerHelper_def)

lemma UpdateMetadata_no_candidate:
  "resolveVersion E ctx = Inr (sp, ch, v) \<Longrightarrow> getMetadata E ctx = Inl e \<Longrightarrow>
   UpdateMetadata E ctx st = ((None, Some e), st)"
  by (simp add: UpdateMetadata_def managerHelper_def updateMetadataHandler_def)

lemma UpdateMetadata_get_fails:
  "resolveVersion E ctx = Inr (sp, ch, v) \<Longrightarrow> getMetadata E ctx = Inr md \<Longrightarrow>
   GetContent E v (world st) = Inl e \<Longrightarrow>
   UpdateMetadata E ctx st = ((None, Some e), st\<lparr>calls := calls st @ [GetContentCall v]\<rparr>)"
  by (simp add: UpdateMetadata_def managerHelper_def updateMetadataHandler_def doGetContent_def)

lemma UpdateMetadata_load_fails:
  "resolveVersion E ctx = Inr (sp, ch, v) \<Longrightarrow> getMetadata E ctx = Inr md \<Longrightarrow>
   GetContent E v (world st) = Inr data \<Longrightarrow> LoadArchive E data = Inl e \<Longrightarrow>
   UpdateMetadata E ctx st =
     ((None, Some (ErrorInternalTypeError (versionPath ch v) ''chart'' ''unknown'')),
      st\<lparr>calls := calls st @ [GetContentCall v]\<rparr>)"
  by (simp add: UpdateMetadata_def managerHelper_def updateMetadataHandler_def doGetContent_def)

lemma UpdateMetadata_nil_metadata:
  "resolveVersion E ctx = Inr (sp, ch, v) \<Longrightarrow> getMetadata E ctx = Inr md \<Longrightarrow>
   GetContent E v (world st) = Inr data \<Longrightarrow> LoadArchive E data = Inr origin \<Longrightarrow>
   chart_Metadata origin = None \<Longrightarrow>
   UpdateMetadata E ctx st =
     ((None, Some (RuntimePanic ''nil pointer dereference'')),
      st\<lparr>calls := calls st @ [GetContentCall v]\<rparr>)"
  by (simp add: UpdateMetadata_def managerHelper_def updateMetadataHandler_def doGetContent_def)

lemma UpdateMetadata_name_differs:
  "resolveVersion E ctx = Inr (sp, ch, v) \<Longrightarrow> getMetadata E ctx = Inr md \<Longrightarrow>
   GetContent E v (world st) = Inr data \<Longrightarrow> LoadArchive E data = Inr origin \<Longrightarrow>
   chart_Metadata origin = Some om \<Longrightarrow> Name om \<noteq> Name (Metadata md) \<Longrightarrow>
   UpdateMetadata E ctx st =
     ((None, Some (ErrorParamValueError ''name'' (Name om) (Name (Metadata md)))),
      st\<lparr>calls := calls st @ [GetContentCall v]\<rparr>)"
  by (simp add: UpdateMetadata_def managerHelper_def updateMetadataHandler_def doGetContent_def)

lemma UpdateMetadata_version_differs:
  "resolveVersion E ctx = Inr (sp, ch, v) \<Longrightarrow> getMetadata E ctx = Inr md \<Longrightarrow>
   GetContent E v (world st) = Inr data \<Longrightarrow> LoadArchive E data = Inr origin \<Longrightarrow>
   chart_Metadata origin = Some om \<Longrightarrow> Name om = Name (Metadata md) \<Longrightarrow>
   Version om \<noteq> Version (Metadata md) \<Longrightarrow>
   UpdateMetadata E ctx st =
     ((None, Some (ErrorParamValueError ''version'' (Version om) (Version (Metadata md)))),
      st\<lparr>calls := calls st @ [GetContentCall v]\<rparr>)"
  by (simp add: UpdateMetadata_def managerHelper_def updateMetadataHandler_def doGetContent_def)

lemma UpdateMetadata_archive_fails:
  "resolveVersion E ctx = Inr (sp, ch, v) \<Longrightarrow> getMetadata E ctx = Inr md \<Longrightarrow>
   GetContent E v (world st) = Inr data \<Longrightarrow> LoadArchive E data = Inr origin \<Longrightarrow>
   chart_Metadata origin = Some om \<Longrightarrow> Name om = Name (Metadata md) \<Longrightarrow>
   Version om = Version (Metadata md) \<Longrightarrow>
   Archive E (origin\<lparr>chart_Metadata := Some (Metadata md)\<rparr>) = Inl e \<Longrightarrow>
   UpdateMetadata E ctx st = ((None, Some e), st\<lparr>calls := calls st @ [GetContentCall v]\<rparr>)"
  by (simp add: UpdateMetadata_def managerHelper_def updateMetadataHandler_def doGetContent_def)

lemma UpdateMetadata_persists:
  "resolveVersion E ctx = Inr (sp, ch, v) \<Longrightarrow> getMetadata E ctx = Inr md \<Longrightarrow>
   GetContent E v (world st) = Inr data \<Longrightarrow> LoadArchive E data = Inr origin \<Longrightarrow>
   chart_Metadata origin = Some om \<Longrightarrow> Name om = Name (Metadata md) \<Longrightarrow>
   Version om = Version (Metadata md) \<Longrightarrow>
   Archive E (origin\<lparr>chart_Metadata := Some (Metadata md)\<rparr>) = Inr data' \<Longrightarrow>
   PutContent E v data' (world st) = (r, w') \<Longrightarrow>
   UpdateMetadata E ctx st =
     ((case r of
         Some e \<Rightarrow> (None, Some e)
       | None \<Rightarrow>
           (case CoalesceMetadata E (origin\<lparr>chart_Metadata := Some (Metadata md)\<rparr>) of
              Inl e \<Rightarrow> (None, Some e)
            | Inr m \<Rightarrow> (Some m, None))),
      st\<lparr>world := w', calls := calls st @ [GetContentCall v, PutContentCall v data']\<rparr>)"
  by (simp add: UpdateMetadata_def managerHelper_def updateMetadataHandler_def doGetContent_def
      doPutContent_def split: option.splits sum.splits)

text \<open>
  Every run of \<open>UpdateMetadata\<close> either stops with an error before anything is written, or
  has passed resolution, fetch, decode, the identity check and re-encoding, and then calls
  \<open>PutContent\<close> once, with the re-encoded archive.
\<close>

lemma UpdateMetadata_dichotomy:
  "(snd (fst (UpdateMetadata E ctx st)) \<noteq> None \<and> unwritten st (snd (UpdateMetadata E ctx st))) \<or>
   (\<exists>sp ch v md data origin om data' r w'.
      resolveVersion E ctx = Inr (sp, ch, v) \<and> getMetadata E ctx = Inr md \<and>
      GetContent E v (world st) = Inr data \<and> LoadArchive E data = Inr origin \<and>
      chart_Metadata origin = Some om \<and>
      Name om = Name (Metadata md) \<and> Version om = Version (Metadata md) \<and>
      Archive E (origin\<lparr>chart_Metadata := Some (Metadata md)\<rparr>) = Inr data' \<and>
      PutContent E v data' (world st) = (r, w') \<and>
      UpdateMetadata E ctx st =
        ((case r of
            Some e \<Rightarrow> (None, Some e)
          | None \<Rightarrow>
              (case CoalesceMetadata E (origin\<lparr>chart_Metadata := Some (Metadata md)\<rparr>) of
                 Inl e \<Rightarrow> (None, Some e)
               | Inr m \<Rightarrow> (Some m, None))),
         st\<lparr>world := w', calls := calls st @ [GetContentCall v, PutContentCall v data']\<rparr>))"
proof (cases "resolveVersion E ctx")
  case (Inl e)
  then show ?thesis
    by (simp add: UpdateMetadata_unresolved unwritten_refl)
next
  case (Inr t)
  then obtain sp ch v where r: "resolveVersion E ctx = Inr (sp, ch, v)"
    by (cases t) auto
  show ?thesis
  proof (cases "getMetadata E ctx")
    case (Inl e)
    then show ?thesis
      by (simp add: UpdateMetadata_no_candidate [OF r] unwritten_refl)
  next
    case md: (Inr md)
    show ?thesis
    proof (cases "GetContent E v (world st)")
      case (Inl e)
      then show ?thesis
        by (simp add: UpdateMetadata_get_fails [OF r md] unwritten_afterGet)
    next
      case data: (Inr data)
      show ?thesis
      proof (cases "LoadArchive E data")
        case (Inl e)
        then show ?thesis
          by (simp add: UpdateMetadata_load_fails [OF r md data] unwritten_afterGet)
      next
        case origin: (Inr origin)
        show ?thesis
        proof (cases "chart_Metadata origin")
          case None
          then show ?thesis
            by (simp add: UpdateMetadata_nil_metadata [OF r md data origin] unwritten_afterGet)
        next
          case om: (Some om)
          show ?thesis
          proof (cases "Name om = Name (Metadata md)")
            case False
            then show ?thesis
              by (simp add: UpdateMetadata_name_differs [OF r md data origin om] unwritten_afterGet)
          next
            case n: True
            show ?thesis
            proof (cases "Version om = Version (Metadata md)")
              case False
              then show ?thesis
                by (simp add: UpdateMetadata_version_differs [OF r md data origin om n]
                    unwritten_afterGet)
            next
              case vn: True
              show ?thesis
              proof (cases "Archive E (origin\<lparr>chart_Metadata := Some (Metadata md)\<rparr>)")
                case (Inl e)
                then show ?thesis
                  by (simp add: UpdateMetadata_archive_fails [OF r md data origin om n vn]
                      unwritten_afterGet)
              next
                case enc: (Inr data')
                obtain res w' where put: "PutContent E v data' (world st) = (res, w')"
                  by (cases "PutContent E v data' (world st)") auto
                show ?thesis
                  using r md data origin om n vn enc put
                    UpdateMetadata_persists [OF r md data origin om n vn enc put]
                  by blast
              qed
            qed
          qed
        qed
      qed
    qed
  qed
qed

subsection \<open>Mutation: the steps of \<open>UpdateValues\<close>\<close>

lemma UpdateValues_unresolved:
  "resolveVersion E ctx = Inl e \<Longrightarrow> UpdateValues E ctx st = (([], Some e), st)"
  by (simp add: UpdateValues_def managerHelper_def)

lemma UpdateValues_no_payload:
  "resolveVersion E ctx = Inr (sp, ch, v) \<Longrightarrow> getValues E ctx = Inl e \<Longrightarrow>
   UpdateValues E ctx st = (([], Some e), st)"
  by (simp add: UpdateValues_def managerHelper_def updateValuesHandler_def)

lemma UpdateValues_conversion_fails:
  "resolveVersion E ctx = Inr (sp, ch, v) \<Longrightarrow> getValues E ctx = Inr values \<Longrightarrow>
   JSONToYAML E values = Inl e \<Longrightarrow>
   UpdateValues E ctx st = ((values, Some (ErrorParamTypeError ''values'' ''json'' ''unknown'')), st)"
  by (simp add: UpdateValues_def managerHelper_def updateValuesHandler_def)

lemma UpdateValues_get_fails:
  "resolveVersion E ctx = Inr (sp, ch, v) \<Longrightarrow> getValues E ctx = Inr values \<Longrightarrow>
   JSONToYAML E values = Inr y \<Longrightarrow> GetContent E v (world st) = Inl e \<Longrightarrow>
   UpdateValues E ctx st = ((values, Some e), st\<lparr>calls := calls st @ [GetContentCall v]\<rparr>)"
  by (simp add: UpdateValues_def managerHelper_def updateValuesHandler_def doGetContent_def)

lemma UpdateValues_load_fails:
  "resolveVersion E ctx = Inr (sp, ch, v) \<Longrightarrow> getValues E ctx = Inr values \<Longrightarrow>
   JSONToYAML E values = Inr y \<Longrightarrow> GetContent E v (world st) = Inr data \<Longrightarrow>
   LoadArchive E data = Inl e \<Longrightarrow>
   UpdateValues E ctx st =
     ((values, Some (ErrorInternalTypeError (versionPath ch v) ''chart'' ''unknown'')),
      st\<lparr>calls := calls st @ [GetContentCall v]\<rparr>)"
  by (simp add: UpdateValues_def managerHelper_def updateValuesHandler_def doGetContent_def)

lemma UpdateValues_nil_values:
  "resolveVersion E ctx = Inr (sp, ch, v) \<Longrightarrow> getValues E ctx = Inr values \<Longrightarrow>
   JSONToYAML E values = Inr y \<Longrightarrow> GetContent E v (world st) = Inr data \<Longrightarrow>
   LoadArchive E data = Inr origin \<Longrightarrow> chart_Values origin = None \<Longrightarrow>
   UpdateValues E ctx st =
     ((values, Some (RuntimePanic ''nil pointer dereference'')),
      st\<lparr>calls := calls st @ [GetContentCall v]\<rparr>)"
  by (simp add: UpdateValues_def managerHelper_def updateValuesHandler_def doGetContent_def)

lemma UpdateValues_archive_fails:
  "resolveVersion E ctx = Inr (sp, ch, v) \<Longrightarrow> getValues E ctx = Inr values \<Longrightarrow>
   JSONToYAML E values = Inr y \<Longrightarrow> GetContent E v (world st) = Inr data \<Longrightarrow>
   LoadArchive E data = Inr origin \<Longrightarrow> chart_Values origin = Some cfg \<Longrightarrow>
   Archive E (origin\<lparr>chart_Values := Some (cfg\<lparr>Raw := y\<rparr>)\<rparr>) = Inl e \<Longrightarrow>
   UpdateValues E ctx st = ((values, Some e), st\<lparr>calls := calls st @ [GetContentCall v]\<rparr>)"
  by (simp add: UpdateValues_def managerHelper_def updateValuesHandler_def doGetContent_def)

lemma UpdateValues_persists:
  "resolveVersion E ctx = Inr (sp, ch, v) \<Longrightarrow> getValues E ctx = Inr values \<Longrightarrow>
   JSONToYAML E values = Inr y \<Longrightarrow> GetContent E v (world st) = Inr data \<Longrightarrow>
   LoadArchive E data = Inr origin \<Longrightarrow> chart_Values origin = Some cfg \<Longrightarrow>
   Archive E (origin\<lparr>chart_Values := Some (cfg\<lparr>Raw := y\<rparr>)\<rparr>) = Inr data' \<Longrightarrow>
   PutContent E v data' (world st) = (r, w') \<Longrightarrow>
   UpdateValues E ctx st =
     ((values, r),
      st\<lparr>world := w', calls := calls st @ [GetContentCall v, PutContentCall v data']\<rparr>)"
  by (simp add: UpdateValues_def managerHelper_def updateValuesHandler_def doGetContent_def
      doPutContent_def)

lemma UpdateValues_dichotomy:
  "(snd (fst (UpdateValues E ctx st)) \<noteq> None \<and> unwritten st (snd (UpdateValues E ctx st))) \<or>
   (\<exists>sp ch v values y data origin cfg data' r w'.
      resolveVersion E ctx = Inr (sp, ch, v) \<and> getValues E ctx = Inr values \<and>
      JSONToYAML E values = Inr y \<and>
      GetContent E v (world st) = Inr data \<and> LoadArchive E data = Inr origin \<and>
      chart_Values origin = Some cfg \<and>
      Archive E (origin\<lparr>chart_Values := Some (cfg\<lparr>Raw := y\<rparr>)\<rparr>) = Inr data' \<and>
      PutContent E v data' (world st) = (r, w') \<and>
      UpdateValues E ctx st =
        ((values, r),
         st\<lparr>world := w', calls := calls st @ [GetContentCall v, PutContentCall v data']\<rparr>))"
proof (cases "resolveVersion E ctx")
  case (Inl e)
  then show ?thesis
    by (simp add: UpdateValues_unresolved unwritten_refl)
next
  case (Inr t)
  then obtain sp ch v where r: "resolveVersion E ctx = Inr (sp, ch, v)"
    by (cases t) auto
  show ?thesis
  proof (cases "getValues E ctx")
    case (Inl e)
    then show ?thesis
      by (simp add: UpdateValues_no_payload [OF r] unwritten_refl)
  next
    case vals: (Inr payload)
    show ?thesis
    proof (cases "JSONToYAML E payload")
      case (Inl e)
      then show ?thesis
        by (simp add: UpdateValues_conversion_fails [OF r vals] unwritten_refl)
    next
      case y: (Inr y)
      show ?thesis
      proof (cases "GetContent E v (world st)")
        case (Inl e)
        then show ?thesis
          by (simp add: UpdateValues_get_fails [OF r vals y] unwritten_afterGet)
      next
        case data: (Inr data)
        show ?thesis
        proof (cases "LoadArchive E data")
          case (Inl e)
          then show ?thesis
            by (simp add: UpdateValues_load_fails [OF r vals y data] unwritten_afterGet)
        next
          case origin: (Inr origin)
          show ?thesis
          proof (cases "chart_Values origin")
            case None
            then show ?thesis
              by (simp add: UpdateValues_nil_values [OF r vals y data origin] unwritten_afterGet)
          next
            case cfg: (Some cfg)
            show ?thesis
            proof (cases "Archive E (origin\<lparr>chart_Values := Some (cfg\<lparr>Raw := y\<rparr>)\<rparr>)")
              case (Inl e)
              then show ?thesis
                by (simp add: UpdateValues_archive_fails [OF r vals y data origin cfg]
                    unwritten_afterGet)
            next
              case enc: (Inr data')
              obtain res w' where put: "PutContent E v data' (world st) = (res, w')"
                by (cases "PutContent E v data' (world st)") auto
              show ?thesis
                using r vals y data origin cfg enc put
                  UpdateValues_persists [OF r vals y data origin cfg enc put]
                by blast
            qed
          qed
        qed
      qed
    qed
  qed
qed

subsection \<open>Facts about the in-memory registry\<close>

lemma memEnv_request:
  "resolveVersion (memEnv cat) r =
     Inr (req_space r, memChart (req_space r) (req_chart r),
          memVersion (req_space r) (req_chart r) (req_version r))"
  "getMetadata (memEnv cat) r = Inr (req_metadata r)"
  "getValues (memEnv cat) r = Inr (req_values r)"
  by (simp_all add: memEnv_def)

lemma memEnv_content:
  "GetContent (memEnv cat) v w =
     (case w v of None \<Rightarrow> Inl (ErrorContentNotFound ''content'') | Some d \<Rightarrow> Inr d)"
  "PutContent (memEnv cat) v d w = (None, w(v \<mapsto> d))"
  by (simp_all add: memEnv_def)

lemma memEnv_codec:
  "LoadArchive (memEnv cat) = memLoadArchive"
  "Archive (memEnv cat) = memArchive"
  "JSONToYAML (memEnv cat) = memJSONToYAML"
  "CoalesceMetadata (memEnv cat) c =
     (case chart_Metadata c of
        None \<Rightarrow> Inl (BackendError ''chart metadata missing'')
      | Some m \<Rightarrow> Inr \<lparr>Metadata = m\<rparr>)"
  by (simp_all add: memEnv_def)

subsection \<open>Metadata update\<close>

text \<open>
  C1. When the candidate's name or version differs from the name or version of the stored
  archive, which decodes, \<open>UpdateMetadata\<close> fails with the parameter-value error of the
  offending field, the name being checked before the version. The only content call of
  the run is the \<open>GetContent\<close> that read the archive: \<open>PutContent\<close> is not called, the
  backend is unchanged, and the same bytes are read back.
\<close>

theorem metadata_identity_mismatch_rejected:
  assumes "resolveVersion E ctx = Inr (sp, ch, v)"
    and "getMetadata E ctx = Inr md"
    and "GetContent E v (world st) = Inr data"
    and "LoadArchive E data = Inr origin"
    and "chart_Metadata origin = Some om"
    and "Name om \<noteq> Name (Metadata md) \<or> Version om \<noteq> Version (Metadata md)"
  shows "UpdateMetadata E ctx st =
           ((None,
             Some (if Name om \<noteq> Name (Metadata md)
                   then ErrorParamValueError ''name'' (Name om) (Name (Metadata md))
                   else ErrorParamValueError ''version'' (Version om) (Version (Metadata md)))),
            st\<lparr>calls := calls st @ [GetContentCall v]\<rparr>) \<and>
         unwritten st (snd (UpdateMetadata E ctx st)) \<and>
         GetContent E v (world (snd (UpdateMetadata E ctx st))) = Inr data"
proof (cases "Name om = Name (Metadata md)")
  case False
  from UpdateMetadata_name_differs [OF assms(1-5) False]
  show ?thesis
    using False assms(3) by (simp add: unwritten_afterGet)
next
  case True
  with assms(6) have ver: "Version om \<noteq> Version (Metadata md)"
    by simp
  from UpdateMetadata_version_differs [OF assms(1-5) True ver]
  show ?thesis
    using True assms(3) by (simp add: unwritten_afterGet)
qed

theorem metadata_identity_mismatch_rejected_witness:
  "UpdateMetadata (memEnv [])
     ((memRequest ''s1'' ''nginx'' ''1.0.0'')
        \<lparr>req_metadata := \<lparr>Metadata = mkMetadata ''apache'' ''1.0.0'' ''renamed''\<rparr>\<rparr>)
     \<lparr>world = [memVersion ''s1'' ''nginx'' ''1.0.0'' \<mapsto> ''nginx-1.0.0.tgz''], calls = []\<rparr> =
     ((None, Some (ErrorParamValueError ''name'' ''nginx'' ''apache'')),
      \<lparr>world = [memVersion ''s1'' ''nginx'' ''1.0.0'' \<mapsto> ''nginx-1.0.0.tgz''],
       calls = [GetContentCall (memVersion ''s1'' ''nginx'' ''1.0.0'')]\<rparr>) \<and>
   UpdateMetadata (memEnv [])
     ((memRequest ''s1'' ''nginx'' ''1.0.0'')
        \<lparr>req_metadata := \<lparr>Metadata = mkMetadata ''nginx'' ''2.0.0'' ''bumped''\<rparr>\<rparr>)
     \<lparr>world = [memVersion ''s1'' ''nginx'' ''1.0.0'' \<mapsto> ''nginx-1.0.0.tgz''], calls = []\<rparr> =
     ((None, Some (ErrorParamValueError ''version'' ''1.0.0'' ''2.0.0'')),
      \<lparr>world = [memVersion ''s1'' ''nginx'' ''1.0.0'' \<mapsto> ''nginx-1.0.0.tgz''],
       calls = [GetContentCall (memVersion ''s1'' ''nginx'' ''1.0.0'')]\<rparr>)"
proof -
  let ?E = "memEnv [] :: (request, version_handle \<rightharpoonup> bytes) env"
  let ?v = "memVersion ''s1'' ''nginx'' ''1.0.0''"
  let ?st = "\<lparr>world = [?v \<mapsto> ''nginx-1.0.0.tgz''], calls = []\<rparr>"
  let ?om = "mkMetadata ''nginx'' ''1.0.0'' ''web server''"
  let ?r1 = "(memRequest ''s1'' ''nginx'' ''1.0.0'')
               \<lparr>req_metadata := \<lparr>Metadata = mkMetadata ''apache'' ''1.0.0'' ''renamed''\<rparr>\<rparr>"
  let ?r2 = "(memRequest ''s1'' ''nginx'' ''1.0.0'')
               \<lparr>req_metadata := \<lparr>Metadata = mkMetadata ''nginx'' ''2.0.0'' ''bumped''\<rparr>\<rparr>"
  have a1: "resolveVersion ?E ?r1 = Inr (''s1'', memChart ''s1'' ''nginx'', ?v)"
    and a2: "resolveVersion ?E ?r2 = Inr (''s1'', memChart ''s1'' ''nginx'', ?v)"
    by (simp_all add: memEnv_request memRequest_def)
  have b1: "getMetadata ?E ?r1 = Inr \<lparr>Metadata = mkMetadata ''apache'' ''1.0.0'' ''renamed''\<rparr>"
    and b2: "getMetadata ?E ?r2 = Inr \<lparr>Metadata = mkMetadata ''nginx'' ''2.0.0'' ''bumped''\<rparr>"
    by (simp_all add: memEnv_request memRequest_def)
  have c: "GetContent ?E ?v (world ?st) = Inr ''nginx-1.0.0.tgz''"
    by (simp add: memEnv_content)
  have d: "LoadArchive ?E ''nginx-1.0.0.tgz'' = Inr nginxChart"
    by (simp add: memEnv_codec memLoadArchive_def)
  have e: "chart_Metadata nginxChart = Some ?om"
    by (simp add: nginxChart_def)
  have f1: "Name ?om \<noteq> Name (Metadata \<lparr>Metadata = mkMetadata ''apache'' ''1.0.0'' ''renamed''\<rparr>) \<or>
            Version ?om \<noteq> Version (Metadata \<lparr>Metadata = mkMetadata ''apache'' ''1.0.0'' ''renamed''\<rparr>)"
    by (simp add: mkMetadata_def)
  have f2: "Name ?om \<noteq> Name (Metadata \<lparr>Metadata = mkMetadata ''nginx'' ''2.0.0'' ''bumped''\<rparr>) \<or>
            Version ?om \<noteq> Version (Metadata \<lparr>Metadata = mkMetadata ''nginx'' ''2.0.0'' ''bumped''\<rparr>)"
    by (simp add: mkMetadata_def)
  show ?thesis
    using metadata_identity_mismatch_rejected [OF a1 b1 c d e f1]
      metadata_identity_mismatch_rejected [OF a2 b2 c d e f2]
    by (simp add: mkMetadata_def)
qed

text \<open>
  C4. When the candidate's name and version equal those of the stored archive,
  \<open>UpdateMetadata\<close> replaces the archive's metadata by the candidate's as a whole (values
  and payload stay), re-encodes the archive, hands the bytes to \<open>PutContent\<close>, and, the
  write accepted, returns what \<open>CoalesceMetadata\<close> gives for the mutated archive, whose
  name and version are those of the archive before.
\<close>

theorem metadata_update_replaces_and_persists:
  assumes "resolveVersion E ctx = Inr (sp, ch, v)"
    and "getMetadata E ctx = Inr md"
    and "GetContent E v (world st) = Inr data"
    and "LoadArchive E data = Inr origin"
    and "chart_Metadata origin = Some om"
    and "Name om = Name (Metadata md)"
    and "Version om = Version (Metadata md)"
    and "mutated = origin\<lparr>chart_Metadata := Some (Metadata md)\<rparr>"
    and "Archive E mutated = Inr data'"
    and "PutContent E v data' (world st) = (None, w')"
  shows "UpdateMetadata E ctx st =
           ((case CoalesceMetadata E mutated of
               Inl e \<Rightarrow> (None, Some e)
             | Inr m \<Rightarrow> (Some m, None)),
            st\<lparr>world := w', calls := calls st @ [GetContentCall v, PutContentCall v data']\<rparr>) \<and>
         chart_Metadata mutated = Some (Metadata md) \<and>
         chart_Values mutated = chart_Values origin \<and>
         chart_Templates mutated = chart_Templates origin \<and>
         chart_Files mutated = chart_Files origin \<and>
         Name (Metadata md) = Name om \<and> Version (Metadata md) = Version om"
  using UpdateMetadata_persists [OF assms(1-7) assms(9) [unfolded assms(8)] assms(10)] assms(6-8)
  by simp

theorem metadata_update_replaces_and_persists_witness:
  "UpdateMetadata (memEnv []) (memRequest ''s1'' ''nginx'' ''1.0.0'')
     \<lparr>world = [memVersion ''s1'' ''nginx'' ''1.0.0'' \<mapsto> ''nginx-1.0.0.tgz''], calls = []\<rparr> =
     ((Some \<lparr>Metadata = mkMetadata ''nginx'' ''1.0.0'' ''updated''\<rparr>, None),
      \<lparr>world = [memVersion ''s1'' ''nginx'' ''1.0.0'' \<mapsto> ''nginx-1.0.0:updated:replicas: 1''],
       calls = [GetContentCall (memVersion ''s1'' ''nginx'' ''1.0.0''),
                PutContentCall (memVersion ''s1'' ''nginx'' ''1.0.0'')
                  ''nginx-1.0.0:updated:replicas: 1'']\<rparr>)"
proof -
  let ?E = "memEnv [] :: (request, version_handle \<rightharpoonup> bytes) env"
  let ?v = "memVersion ''s1'' ''nginx'' ''1.0.0''"
  let ?st = "\<lparr>world = [?v \<mapsto> ''nginx-1.0.0.tgz''], calls = []\<rparr>"
  let ?r = "memRequest ''s1'' ''nginx'' ''1.0.0''"
  let ?md = "\<lparr>Metadata = mkMetadata ''nginx'' ''1.0.0'' ''updated''\<rparr>"
  let ?om = "mkMetadata ''nginx'' ''1.0.0'' ''web server''"
  let ?mutated = "nginxChart\<lparr>chart_Metadata := Some (Metadata ?md)\<rparr>"
  let ?new = "''nginx-1.0.0:updated:replicas: 1''"
  have a: "resolveVersion ?E ?r = Inr (''s1'', memChart ''s1'' ''nginx'', ?v)"
    by (simp add: memEnv_request memRequest_def)
  have b: "getMetadata ?E ?r = Inr ?md"
    by (simp add: memEnv_request memRequest_def)
  have c: "GetContent ?E ?v (world ?st) = Inr ''nginx-1.0.0.tgz''"
    by (simp add: memEnv_content)
  have d: "LoadArchive ?E ''nginx-1.0.0.tgz'' = Inr nginxChart"
    by (simp add: memEnv_codec memLoadArchive_def)
  have e: "chart_Metadata nginxChart = Some ?om"
    by (simp add: nginxChart_def)
  have f: "Name ?om = Name (Metadata ?md)" and g: "Version ?om = Version (Metadata ?md)"
    by (simp_all add: mkMetadata_def)
  have h: "?mutated = nginxChart\<lparr>chart_Metadata := Some (Metadata ?md)\<rparr>"
    by simp
  have i: "Archive ?E ?mutated = Inr ?new"
    by (simp add: memEnv_codec memArchive_def nginxChart_def mkMetadata_def)
  have j: "PutContent ?E ?v ?new (world ?st) = (None, [?v \<mapsto> ?new])"
    by (simp add: memEnv_content)
  have k: "CoalesceMetadata ?E ?mutated = Inr ?md"
    by (simp add: memEnv_codec)
  show ?thesis
    using metadata_update_replaces_and_persists [OF a b c d e f g h i j] k
    by simp
qed

subsection \<open>Values update\<close>

text \<open>
  C5. When the payload does not convert (\<open>JSONToYAML\<close> fails), \<open>UpdateValues\<close> fails with the
  parameter-type error for "values", and the state is the one it started in: the conversion
  comes before the fetch, so neither \<open>GetContent\<close> nor \<open>PutContent\<close> is called and the stored
  content is unchanged.
\<close>

theorem values_conversion_failure_rejected:
  assumes "resolveVersion E ctx = Inr (sp, ch, v)"
    and "getValues E ctx = Inr payload"
    and "JSONToYAML E payload = Inl e"
  shows "UpdateValues E ctx st =
           ((payload, Some (ErrorParamTypeError ''values'' ''json'' ''unknown'')), st) \<and>
         calls (snd (UpdateValues E ctx st)) = calls st \<and>
         world (snd (UpdateValues E ctx st)) = world st \<and>
         unwritten st (snd (UpdateValues E ctx st))"
  using UpdateValues_conversion_fails [OF assms] by (simp add: unwritten_refl)

theorem values_conversion_failure_rejected_witness:
  "UpdateValues (memEnv []) ((memRequest ''s1'' ''nginx'' ''1.0.0'')\<lparr>req_values := ''{oops''\<rparr>)
     \<lparr>world = [memVersion ''s1'' ''nginx'' ''1.0.0'' \<mapsto> ''nginx-1.0.0.tgz''], calls = []\<rparr> =
     ((''{oops'', Some (ErrorParamTypeError ''values'' ''json'' ''unknown'')),
      \<lparr>world = [memVersion ''s1'' ''nginx'' ''1.0.0'' \<mapsto> ''nginx-1.0.0.tgz''], calls = []\<rparr>)"
proof -
  let ?E = "memEnv [] :: (request, version_handle \<rightharpoonup> bytes) env"
  let ?r = "(memRequest ''s1'' ''nginx'' ''1.0.0'')\<lparr>req_values := ''{oops''\<rparr>"
  have a: "resolveVersion ?E ?r =
             Inr (''s1'', memChart ''s1'' ''nginx'', memVersion ''s1'' ''nginx'' ''1.0.0'')"
    by (simp add: memEnv_request memRequest_def)
  have b: "getValues ?E ?r = Inr ''{oops''"
    by (simp add: memEnv_request memRequest_def)
  have c: "JSONToYAML ?E ''{oops'' = Inl (BackendError ''invalid json'')"
    by (simp add: memEnv_codec memJSONToYAML_def)
  show ?thesis
    using values_conversion_failure_rejected [OF a b c] by simp
qed

text \<open>
  C8. A values update that succeeds returns the payload the caller supplied, byte for
  byte, while the archive written to the store is the stored one with its raw values
  replaced by the converted payload.
\<close>

theorem values_update_returns_payload:
  assumes "UpdateValues E ctx st = ((result, None), st')"
  shows "getValues E ctx = Inr result \<and>
         (\<exists>sp ch v y data origin cfg data' w'.
            resolveVersion E ctx = Inr (sp, ch, v) \<and>
            JSONToYAML E result = Inr y \<and>
            GetContent E v (world st) = Inr data \<and> LoadArchive E data = Inr origin \<and>
            chart_Values origin = Some cfg \<and>
            Archive E (origin\<lparr>chart_Values := Some (cfg\<lparr>Raw := y\<rparr>)\<rparr>) = Inr data' \<and>
            PutContent E v data' (world st) = (None, w') \<and>
            st' = st\<lparr>world := w', calls := calls st @ [GetContentCall v, PutContentCall v data']\<rparr>)"
proof -
  have ok: "snd (fst (UpdateValues E ctx st)) = None"
    using assms by simp
  with UpdateValues_dichotomy [of E ctx st]
  obtain sp ch v payload y data origin cfg data' r w' where
    h: "resolveVersion E ctx = Inr (sp, ch, v)" "getValues E ctx = Inr payload"
       "JSONToYAML E payload = Inr y"
       "GetContent E v (world st) = Inr data" "LoadArchive E data = Inr origin"
       "chart_Values origin = Some cfg"
       "Archive E (origin\<lparr>chart_Values := Some (cfg\<lparr>Raw := y\<rparr>)\<rparr>) = Inr data'"
       "PutContent E v data' (world st) = (r, w')"
    and res: "UpdateValues E ctx st =
                ((payload, r),
                 st\<lparr>world := w', calls := calls st @ [GetContentCall v, PutContentCall v data']\<rparr>)"
    by blast
  from res assms have eq: "payload = result" "r = None"
    "st' = st\<lparr>world := w', calls := calls st @ [GetContentCall v, PutContentCall v data']\<rparr>"
    by simp_all
  show ?thesis
    using h eq by blast
qed

theorem values_update_returns_payload_witness:
  "UpdateValues (memEnv []) (memRequest ''s1'' ''nginx'' ''1.0.0'')
     \<lparr>world = [memVersion ''s1'' ''nginx'' ''1.0.0'' \<mapsto> ''nginx-1.0.0.tgz''], calls = []\<rparr> =
     ((''[1,2]'', None),
      \<lparr>world = [memVersion ''s1'' ''nginx'' ''1.0.0'' \<mapsto> ''nginx-1.0.0:web server:- 1 - 2''],
       calls = [GetContentCall (memVersion ''s1'' ''nginx'' ''1.0.0''),
                PutContentCall (memVersion ''s1'' ''nginx'' ''1.0.0'')
                  ''nginx-1.0.0:web server:- 1 - 2'']\<rparr>) \<and>
   getValues (memEnv [] :: (request, version_handle \<rightharpoonup> bytes) env)
     (memRequest ''s1'' ''nginx'' ''1.0.0'') = Inr ''[1,2]''"
proof -
  let ?E = "memEnv [] :: (request, version_handle \<rightharpoonup> bytes) env"
  let ?v = "memVersion ''s1'' ''nginx'' ''1.0.0''"
  let ?st = "\<lparr>world = [?v \<mapsto> ''nginx-1.0.0.tgz''], calls = []\<rparr>"
  let ?r = "memRequest ''s1'' ''nginx'' ''1.0.0''"
  let ?new = "''nginx-1.0.0:web server:- 1 - 2''"
  let ?st' = "\<lparr>world = [?v \<mapsto> ?new], calls = [GetContentCall ?v, PutContentCall ?v ?new]\<rparr>"
  have a: "resolveVersion ?E ?r = Inr (''s1'', memChart ''s1'' ''nginx'', ?v)"
    by (simp add: memEnv_request memRequest_def)
  have b: "getValues ?E ?r = Inr ''[1,2]''"
    by (simp add: memEnv_request memRequest_def)
  have c: "JSONToYAML ?E ''[1,2]'' = Inr ''- 1 - 2''"
    by (simp add: memEnv_codec memJSONToYAML_def)
  have d: "GetContent ?E ?v (world ?st) = Inr ''nginx-1.0.0.tgz''"
    by (simp add: memEnv_content)
  have e: "LoadArchive ?E ''nginx-1.0.0.tgz'' = Inr nginxChart"
    by (simp add: memEnv_codec memLoadArchive_def)
  have f: "chart_Values nginxChart = Some \<lparr>Raw = ''replicas: 1''\<rparr>"
    by (simp add: nginxChart_def)
  have g: "Archive ?E (nginxChart\<lparr>chart_Values := Some (\<lparr>Raw = ''replicas: 1''\<rparr>\<lparr>Raw := ''- 1 - 2''\<rparr>)\<rparr>) =
             Inr ?new"
    by (simp add: memEnv_codec memArchive_def nginxChart_def mkMetadata_def)
  have h: "PutContent ?E ?v ?new (world ?st) = (None, [?v \<mapsto> ?new])"
    by (simp add: memEnv_content)
  have run: "UpdateValues ?E ?r ?st = ((''[1,2]'', None), ?st')"
    using UpdateValues_persists [OF a b c d e f g h] by simp
  from values_update_returns_payload [OF run] have "getValues ?E ?r = Inr ''[1,2]''"
    by blast
  with run show ?thesis by simp
qed

subsection \<open>Failures before the write\<close>

text \<open>
  C2. In both mutation handlers a failure of the fetch (\<open>GetContent\<close>), of the decoding
  (\<open>LoadArchive\<close>), of the identity check or of the values conversion, or of the re-encoding
  (\<open>Archive\<close>) is returned as the handler's error, and the run ends without a \<open>PutContent\<close>
  call and with the backend as it was. Conversely, a run that did write has passed every
  one of these steps.
\<close>

theorem mutation_aborts_before_persist:
  assumes "resolveVersion E ctx = Inr (sp, ch, v)"
  shows
    "(getMetadata E ctx = Inr md \<and> GetContent E v (world st) = Inl e \<longrightarrow>
        fst (UpdateMetadata E ctx st) = (None, Some e) \<and>
        unwritten st (snd (UpdateMetadata E ctx st))) \<and>
     (getMetadata E ctx = Inr md \<and> GetContent E v (world st) = Inr data \<and>
      LoadArchive E data = Inl e \<longrightarrow>
        fst (UpdateMetadata E ctx st) =
          (None, Some (ErrorInternalTypeError (versionPath ch v) ''chart'' ''unknown'')) \<and>
        unwritten st (snd (UpdateMetadata E ctx st))) \<and>
     (getMetadata E ctx = Inr md \<and> GetContent E v (world st) = Inr data \<and>
      LoadArchive E data = Inr origin \<and> chart_Metadata origin = Some om \<and>
      (Name om \<noteq> Name (Metadata md) \<or> Version om \<noteq> Version (Metadata md)) \<longrightarrow>
        (\<exists>field expected actual.
           fst (UpdateMetadata E ctx st) = (None, Some (ErrorParamValueError field expected actual))) \<and>
        unwritten st (snd (UpdateMetadata E ctx st))) \<and>
     (getMetadata E ctx = Inr md \<and> GetContent E v (world st) = Inr data \<and>
      LoadArchive E data = Inr origin \<and> chart_Metadata origin = Some om \<and>
      Name om = Name (Metadata md) \<and> Version om = Version (Metadata md) \<and>
      Archive E (origin\<lparr>chart_Metadata := Some (Metadata md)\<rparr>) = Inl e \<longrightarrow>
        fst (UpdateMetadata E ctx st) = (None, Some e) \<and>
        unwritten st (snd (UpdateMetadata E ctx st))) \<and>
     (getValues E ctx = Inr payload \<and> JSONToYAML E payload = Inl e \<longrightarrow>
        fst (UpdateValues E ctx st) =
          (payload, Some (ErrorParamTypeError ''values'' ''json'' ''unknown'')) \<and>
        unwritten st (snd (UpdateValues E ctx st))) \<and>
     (getValues E ctx = Inr payload \<and> JSONToYAML E payload = Inr y \<and>
      GetContent E v (world st) = Inl e \<longrightarrow>
        fst (UpdateValues E ctx st) = (payload, Some e) \<and>
        unwritten st (snd (UpdateValues E ctx st))) \<and>
     (getValues E ctx = Inr payload \<and> JSONToYAML E payload = Inr y \<and>
      GetContent E v (world st) = Inr data \<and> LoadArchive E data = Inl e \<longrightarrow>
        fst (UpdateValues E ctx st) =
          (payload, Some (ErrorInternalTypeError (versionPath ch v) ''chart'' ''unknown'')) \<and>
        unwritten st (snd (UpdateValues E ctx st))) \<and>
     (getValues E ctx = Inr payload \<and> JSONToYAML E payload = Inr y \<and>
      GetContent E v (world st) = Inr data \<and> LoadArchive E data = Inr origin \<and>
      chart_Values origin = Some cfg \<and>
      Archive E (origin\<lparr>chart_Values := Some (cfg\<lparr>Raw := y\<rparr>)\<rparr>) = Inl e \<longrightarrow>
        fst (UpdateValues E ctx st) = (payload, Some e) \<and>
        unwritten st (snd (UpdateValues E ctx st))) \<and>
     (\<not> unwritten st (snd (UpdateMetadata E ctx st)) \<longrightarrow>
        (\<exists>md data origin om data'.
           getMetadata E ctx = Inr md \<and> GetContent E v (world st) = Inr data \<and>
           LoadArchive E data = Inr origin \<and> chart_Metadata origin = Some om \<and>
           Name om = Name (Metadata md) \<and> Version om = Version (Metadata md) \<and>
           Archive E (origin\<lparr>chart_Metadata := Some (Metadata md)\<rparr>) = Inr data')) \<and>
     (\<not> unwritten st (snd (UpdateValues E ctx st)) \<longrightarrow>
        (\<exists>payload y data origin cfg data'.
           getValues E ctx = Inr payload \<and> JSONToYAML E payload = Inr y \<and>
           GetContent E v (world st) = Inr data \<and> LoadArchive E data = Inr origin \<and>
           chart_Values origin = Some cfg \<and>
           Archive E (origin\<lparr>chart_Values := Some (cfg\<lparr>Raw := y\<rparr>)\<rparr>) = Inr data'))"
proof (intro conjI impI; (elim conjE)?)
  assume "getMetadata E ctx = Inr md" "GetContent E v (world st) = Inl e"
  from UpdateMetadata_get_fails [OF assms this]
  show "fst (UpdateMetadata E ctx st) = (None, Some e)"
    and "unwritten st (snd (UpdateMetadata E ctx st))"
    by (simp_all add: unwritten_afterGet)
next
  assume "getMetadata E ctx = Inr md" "GetContent E v (world st) = Inr data"
    "LoadArchive E data = Inl e"
  from UpdateMetadata_load_fails [OF assms this]
  show "fst (UpdateMetadata E ctx st) =
          (None, Some (ErrorInternalTypeError (versionPath ch v) ''chart'' ''unknown''))"
    and "unwritten st (snd (UpdateMetadata E ctx st))"
    by (simp_all add: unwritten_afterGet)
next
  assume h: "getMetadata E ctx = Inr md" "GetContent E v (world st) = Inr data"
    "LoadArchive E data = Inr origin" "chart_Metadata origin = Some om"
    and d: "Name om \<noteq> Name (Metadata md) \<or> Version om \<noteq> Version (Metadata md)"
  have "UpdateMetadata E ctx st =
          ((None, Some (ErrorParamValueError ''name'' (Name om) (Name (Metadata md)))),
           st\<lparr>calls := calls st @ [GetContentCall v]\<rparr>) \<or>
        UpdateMetadata E ctx st =
          ((None, Some (ErrorParamValueError ''version'' (Version om) (Version (Metadata md)))),
           st\<lparr>calls := calls st @ [GetContentCall v]\<rparr>)"
    using UpdateMetadata_name_differs [OF assms h] UpdateMetadata_version_differs [OF assms h] d
    by blast
  then show "\<exists>field expected actual.
               fst (UpdateMetadata E ctx st) =
                 (None, Some (ErrorParamValueError field expected actual))"
    and "unwritten st (snd (UpdateMetadata E ctx st))"
    by (auto simp: unwritten_afterGet)
next
  assume "getMetadata E ctx = Inr md" "GetContent E v (world st) = Inr data"
    "LoadArchive E data = Inr origin" "chart_Metadata origin = Some om"
    "Name om = Name (Metadata md)" "Version om = Version (Metadata md)"
    "Archive E (origin\<lparr>chart_Metadata := Some (Metadata md)\<rparr>) = Inl e"
  from UpdateMetadata_archive_fails [OF assms this]
  show "fst (UpdateMetadata E ctx st) = (None, Some e)"
    and "unwritten st (snd (UpdateMetadata E ctx st))"
    by (simp_all add: unwritten_afterGet)
next
  assume "getValues E ctx = Inr payload" "JSONToYAML E payload = Inl e"
  from UpdateValues_conversion_fails [OF assms this]
  show "fst (UpdateValues E ctx st) =
          (payload, Some (ErrorParamTypeError ''values'' ''json'' ''unknown''))"
    and "unwritten st (snd (UpdateValues E ctx st))"
    by (simp_all add: unwritten_refl)
next
  assume "getValues E ctx = Inr payload" "JSONToYAML E payload = Inr y"
    "GetContent E v (world st) = Inl e"
  from UpdateValues_get_fails [OF assms this]
  show "fst (UpdateValues E ctx st) = (payload, Some e)"
    and "unwritten st (snd (UpdateValues E ctx st))"
    by (simp_all add: unwritten_afterGet)
next
  assume "getValues E ctx = Inr payload" "JSONToYAML E payload = Inr y"
    "GetContent E v (world st) = Inr data" "LoadArchive E data = Inl e"
  from UpdateValues_load_fails [OF assms this]
  show "fst (UpdateValues E ctx st) =
          (payload, Some (ErrorInternalTypeError (versionPath ch v) ''chart'' ''unknown''))"
    and "unwritten st (snd (UpdateValues E ctx st))"
    by (simp_all add: unwritten_afterGet)
next
  assume "getValues E ctx = Inr payload" "JSONToYAML E payload = Inr y"
    "GetContent E v (world st) = Inr data" "LoadArchive E data = Inr origin"
    "chart_Values origin = Some cfg"
    "Archive E (origin\<lparr>chart_Values := Some (cfg\<lparr>Raw := y\<rparr>)\<rparr>) = Inl e"
  from UpdateValues_archive_fails [OF assms this]
  show "fst (UpdateValues E ctx st) = (payload, Some e)"
    and "unwritten st (snd (UpdateValues E ctx st))"
    by (simp_all add: unwritten_afterGet)
next
  assume "\<not> unwritten st (snd (UpdateMetadata E ctx st))"
  with UpdateMetadata_dichotomy [of E ctx st]
  obtain sp' ch' v' md data origin om data' where
    r: "resolveVersion E ctx = Inr (sp', ch', v')"
    and h: "getMetadata E ctx = Inr md" "GetContent E v' (world st) = Inr data"
      "LoadArchive E data = Inr origin" "chart_Metadata origin = Some om"
      "Name om = Name (Metadata md)" "Version om = Version (Metadata md)"
      "Archive E (origin\<lparr>chart_Metadata := Some (Metadata md)\<rparr>) = Inr data'"
    by blast
  from r assms have "v' = v" by simp
  with h show "\<exists>md data origin om data'.
          getMetadata E ctx = Inr md \<and> GetContent E v (world st) = Inr data \<and>
          LoadArchive E data = Inr origin \<and> chart_Metadata origin = Some om \<and>
          Name om = Name (Metadata md) \<and> Version om = Version (Metadata md) \<and>
          Archive E (origin\<lparr>chart_Metadata := Some (Metadata md)\<rparr>) = Inr data'"
    by blast
next
  assume "\<not> unwritten st (snd (UpdateValues E ctx st))"
  with UpdateValues_dichotomy [of E ctx st]
  obtain sp' ch' v' payload' y' data origin cfg data' where
    r: "resolveVersion E ctx = Inr (sp', ch', v')"
    and h: "getValues E ctx = Inr payload'" "JSONToYAML E payload' = Inr y'"
      "GetContent E v' (world st) = Inr data" "LoadArchive E data = Inr origin"
      "chart_Values origin = Some cfg"
      "Archive E (origin\<lparr>chart_Values := Some (cfg\<lparr>Raw := y'\<rparr>)\<rparr>) = Inr data'"
    by blast
  from r assms have "v' = v" by simp
  with h show "\<exists>payload y data origin cfg data'.
          getValues E ctx = Inr payload \<and> JSONToYAML E payload = Inr y \<and>
          GetContent E v (world st) = Inr data \<and> LoadArchive E data = Inr origin \<and>
          chart_Values origin = Some cfg \<and>
          Archive E (origin\<lparr>chart_Values := Some (cfg\<lparr>Raw := y\<rparr>)\<rparr>) = Inr data'"
    by blast
qed

theorem mutation_aborts_before_persist_witness:
  "fst (UpdateMetadata (memEnv []) (memRequest ''s1'' ''nginx'' ''1.0.0'')
          \<lparr>world = Map.empty, calls = []\<rparr>) =
     (None, Some (ErrorContentNotFound ''content'')) \<and>
   unwritten \<lparr>world = Map.empty, calls = []\<rparr>
     (snd (UpdateMetadata (memEnv []) (memRequest ''s1'' ''nginx'' ''1.0.0'')
             \<lparr>world = Map.empty, calls = []\<rparr>)) \<and>
   fst (UpdateMetadata (memEnv []) (memRequest ''s1'' ''nginx'' ''1.0.0'')
          \<lparr>world = [memVersion ''s1'' ''nginx'' ''1.0.0'' \<mapsto> ''garbage''], calls = []\<rparr>) =
     (None, Some (ErrorInternalTypeError ''nginx/1.0.0'' ''chart'' ''unknown'')) \<and>
   fst (UpdateMetadata (memEnv [])
          ((memRequest ''s1'' ''nginx'' ''1.0.0'')
             \<lparr>req_metadata := \<lparr>Metadata = mkMetadata ''nginx'' ''1.0.0'' []\<rparr>\<rparr>)
          \<lparr>world = [memVersion ''s1'' ''nginx'' ''1.0.0'' \<mapsto> ''nginx-1.0.0.tgz''], calls = []\<rparr>) =
     (None, Some (BackendError ''description required'')) \<and>
   fst (UpdateValues (memEnv []) (memRequest ''s1'' ''nginx'' ''1.0.0'')
          \<lparr>world = [memVersion ''s1'' ''nginx'' ''1.0.0'' \<mapsto> ''nodesc.tgz''], calls = []\<rparr>) =
     (''[1,2]'', Some (BackendError ''description required'')) \<and>
   unwritten \<lparr>world = [memVersion ''s1'' ''nginx'' ''1.0.0'' \<mapsto> ''nodesc.tgz''], calls = []\<rparr>
     (snd (UpdateValues (memEnv []) (memRequest ''s1'' ''nginx'' ''1.0.0'')
             \<lparr>world = [memVersion ''s1'' ''nginx'' ''1.0.0'' \<mapsto> ''nodesc.tgz''], calls = []\<rparr>))"
proof -
  let ?E = "memEnv [] :: (request, version_handle \<rightharpoonup> bytes) env"
  let ?v = "memVersion ''s1'' ''nginx'' ''1.0.0''"
  let ?ch = "memChart ''s1'' ''nginx''"
  let ?r = "memRequest ''s1'' ''nginx'' ''1.0.0''"
  let ?md = "\<lparr>Metadata = mkMetadata ''nginx'' ''1.0.0'' ''updated''\<rparr>"
  let ?bare = "\<lparr>Metadata = mkMetadata ''nginx'' ''1.0.0'' []\<rparr>"
  let ?r' = "?r\<lparr>req_metadata := ?bare\<rparr>"
  let ?om = "mkMetadata ''nginx'' ''1.0.0'' ''web server''"
  let ?st0 = "\<lparr>world = Map.empty, calls = []\<rparr> :: (version_handle \<rightharpoonup> bytes) state"
  let ?st1 = "\<lparr>world = [?v \<mapsto> ''garbage''], calls = []\<rparr>"
  let ?st2 = "\<lparr>world = [?v \<mapsto> ''nginx-1.0.0.tgz''], calls = []\<rparr>"
  let ?st3 = "\<lparr>world = [?v \<mapsto> ''nodesc.tgz''], calls = []\<rparr>"
  let ?nodesc = "nginxChart\<lparr>chart_Metadata := Some (mkMetadata ''nginx'' ''1.0.0'' [])\<rparr>"
  have a: "resolveVersion ?E ?r = Inr (''s1'', ?ch, ?v)"
    and a': "resolveVersion ?E ?r' = Inr (''s1'', ?ch, ?v)"
    by (simp_all add: memEnv_request memRequest_def)
  have path: "versionPath ?ch ?v = ''nginx/1.0.0''"
    by (simp add: versionPath_def memChart_def memVersion_def)
  have md: "getMetadata ?E ?r = Inr ?md" and md': "getMetadata ?E ?r' = Inr ?bare"
    by (simp_all add: memEnv_request memRequest_def)
  have vals: "getValues ?E ?r = Inr ''[1,2]''"
    by (simp add: memEnv_request memRequest_def)
  have conv: "JSONToYAML ?E ''[1,2]'' = Inr ''- 1 - 2''"
    by (simp add: memEnv_codec memJSONToYAML_def)
  have g0: "GetContent ?E ?v (world ?st0) = Inl (ErrorContentNotFound ''content'')"
    and g1: "GetContent ?E ?v (world ?st1) = Inr ''garbage''"
    and g2: "GetContent ?E ?v (world ?st2) = Inr ''nginx-1.0.0.tgz''"
    and g3: "GetContent ?E ?v (world ?st3) = Inr ''nodesc.tgz''"
    by (simp_all add: memEnv_content)
  have l1: "LoadArchive ?E ''garbage'' = Inl (BackendError ''not a chart archive'')"
    and l2: "LoadArchive ?E ''nginx-1.0.0.tgz'' = Inr nginxChart"
    and l3: "LoadArchive ?E ''nodesc.tgz'' = Inr ?nodesc"
    by (simp_all add: memEnv_codec memLoadArchive_def)
  have om: "chart_Metadata nginxChart = Some ?om"
    by (simp add: nginxChart_def)
  have same: "Name ?om = Name (Metadata ?bare)" "Version ?om = Version (Metadata ?bare)"
    by (simp_all add: mkMetadata_def)
  have enc2: "Archive ?E (nginxChart\<lparr>chart_Metadata := Some (Metadata ?bare)\<rparr>) =
                Inl (BackendError ''description required'')"
    by (simp add: memEnv_codec memArchive_def mkMetadata_def)
  have cfg: "chart_Values ?nodesc = Some \<lparr>Raw = ''replicas: 1''\<rparr>"
    by (simp add: nginxChart_def)
  have enc3: "Archive ?E (?nodesc\<lparr>chart_Values := Some (\<lparr>Raw = ''replicas: 1''\<rparr>\<lparr>Raw := ''- 1 - 2''\<rparr>)\<rparr>) =
                Inl (BackendError ''description required'')"
    by (simp add: memEnv_codec memArchive_def mkMetadata_def)
  note t0 = mutation_aborts_before_persist
    [OF a, where md = ?md and st = ?st0 and e = "ErrorContentNotFound ''content''"]
  note t1 = mutation_aborts_before_persist
    [OF a, where md = ?md and st = ?st1 and data = "''garbage''"
      and e = "BackendError ''not a chart archive''"]
  note t2 = mutation_aborts_before_persist
    [OF a', where md = ?bare and st = ?st2 and data = "''nginx-1.0.0.tgz''"
      and origin = nginxChart and om = ?om and e = "BackendError ''description required''"]
  note t3 = mutation_aborts_before_persist
    [OF a, where payload = "''[1,2]''" and y = "''- 1 - 2''" and st = ?st3
      and data = "''nodesc.tgz''" and origin = ?nodesc and cfg = "\<lparr>Raw = ''replicas: 1''\<rparr>"
      and e = "BackendError ''description required''"]
  have r0: "fst (UpdateMetadata ?E ?r ?st0) = (None, Some (ErrorContentNotFound ''content''))"
    and u0: "unwritten ?st0 (snd (UpdateMetadata ?E ?r ?st0))"
    using t0 md g0 by blast+
  have r1: "fst (UpdateMetadata ?E ?r ?st1) =
              (None, Some (ErrorInternalTypeError ''nginx/1.0.0'' ''chart'' ''unknown''))"
    using t1 md g1 l1 path by metis
  have r2: "fst (UpdateMetadata ?E ?r' ?st2) = (None, Some (BackendError ''description required''))"
    using t2 md' g2 l2 om same enc2 by blast
  have r3: "fst (UpdateValues ?E ?r ?st3) = (''[1,2]'', Some (BackendError ''description required''))"
    and u3: "unwritten ?st3 (snd (UpdateValues ?E ?r ?st3))"
    using t3 vals conv g3 l3 cfg enc3 by blast+
  from r0 u0 r1 r2 r3 u3 show ?thesis
    by (intro conjI)
qed

subsection \<open>Identity across a mutation\<close>

text \<open>
  The handlers compare the candidate with the archive, never the archive with the handles
  it is stored under. Over a backend that holds the archive of \<open>nginx 1.0.0\<close> under the
  chart \<open>web\<close>, version \<open>9.9.9\<close>, both updates succeed, and the archive written back is
  still named \<open>nginx\<close>, version \<open>1.0.0\<close>.
\<close>

theorem update_under_other_identity_counterexample:
  "resolveVersion (memEnv [] :: (request, version_handle \<rightharpoonup> bytes) env)
     ((memRequest ''s1'' ''web'' ''9.9.9'')
        \<lparr>req_metadata := \<lparr>Metadata = mkMetadata ''nginx'' ''1.0.0'' ''updated''\<rparr>\<rparr>) =
     Inr (''s1'', memChart ''s1'' ''web'', memVersion ''s1'' ''web'' ''9.9.9'') \<and>
   chart_Name (memChart ''s1'' ''web'') = ''web'' \<and>
   version_Number (memVersion ''s1'' ''web'' ''9.9.9'') = ''9.9.9'' \<and>
   UpdateMetadata (memEnv [])
     ((memRequest ''s1'' ''web'' ''9.9.9'')
        \<lparr>req_metadata := \<lparr>Metadata = mkMetadata ''nginx'' ''1.0.0'' ''updated''\<rparr>\<rparr>)
     \<lparr>world = [memVersion ''s1'' ''web'' ''9.9.9'' \<mapsto> ''nginx-1.0.0.tgz''], calls = []\<rparr> =
     ((Some \<lparr>Metadata = mkMetadata ''nginx'' ''1.0.0'' ''updated''\<rparr>, None),
      \<lparr>world = [memVersion ''s1'' ''web'' ''9.9.9'' \<mapsto> ''nginx-1.0.0:updated:replicas: 1''],
       calls = [GetContentCall (memVersion ''s1'' ''web'' ''9.9.9''),
                PutContentCall (memVersion ''s1'' ''web'' ''9.9.9'')
                  ''nginx-1.0.0:updated:replicas: 1'']\<rparr>) \<and>
   UpdateValues (memEnv [])
     ((memRequest ''s1'' ''web'' ''9.9.9'')
        \<lparr>req_metadata := \<lparr>Metadata = mkMetadata ''nginx'' ''1.0.0'' ''updated''\<rparr>\<rparr>)
     \<lparr>world = [memVersion ''s1'' ''web'' ''9.9.9'' \<mapsto> ''nginx-1.0.0.tgz''], calls = []\<rparr> =
     ((''[1,2]'', None),
      \<lparr>world = [memVersion ''s1'' ''web'' ''9.9.9'' \<mapsto> ''nginx-1.0.0:web server:- 1 - 2''],
       calls = [GetContentCall (memVersion ''s1'' ''web'' ''9.9.9''),
                PutContentCall (memVersion ''s1'' ''web'' ''9.9.9'')
                  ''nginx-1.0.0:web server:- 1 - 2'']\<rparr>) \<and>
   Name (mkMetadata ''nginx'' ''1.0.0'' ''updated'') \<noteq> chart_Name (memChart ''s1'' ''web'') \<and>
   Version (mkMetadata ''nginx'' ''1.0.0'' ''updated'') \<noteq>
     version_Number (memVersion ''s1'' ''web'' ''9.9.9'')"
proof -
  let ?E = "memEnv [] :: (request, version_handle \<rightharpoonup> bytes) env"
  let ?v = "memVersion ''s1'' ''web'' ''9.9.9''"
  let ?md = "\<lparr>Metadata = mkMetadata ''nginx'' ''1.0.0'' ''updated''\<rparr>"
  let ?r = "(memRequest ''s1'' ''web'' ''9.9.9'')\<lparr>req_metadata := ?md\<rparr>"
  let ?st = "\<lparr>world = [?v \<mapsto> ''nginx-1.0.0.tgz''], calls = []\<rparr>"
  let ?om = "mkMetadata ''nginx'' ''1.0.0'' ''web server''"
  let ?new = "''nginx-1.0.0:updated:replicas: 1''"
  let ?new' = "''nginx-1.0.0:web server:- 1 - 2''"
  have a: "resolveVersion ?E ?r = Inr (''s1'', memChart ''s1'' ''web'', ?v)"
    by (simp add: memEnv_request memRequest_def)
  have b: "getMetadata ?E ?r = Inr ?md"
    by (simp add: memEnv_request memRequest_def)
  have c: "GetContent ?E ?v (world ?st) = Inr ''nginx-1.0.0.tgz''"
    by (simp add: memEnv_content)
  have d: "LoadArchive ?E ''nginx-1.0.0.tgz'' = Inr nginxChart"
    by (simp add: memEnv_codec memLoadArchive_def)
  have e: "chart_Metadata nginxChart = Some ?om"
    by (simp add: nginxChart_def)
  have f: "Name ?om = Name (Metadata ?md)" and g: "Version ?om = Version (Metadata ?md)"
    by (simp_all add: mkMetadata_def)
  have i: "Archive ?E (nginxChart\<lparr>chart_Metadata := Some (Metadata ?md)\<rparr>) = Inr ?new"
    by (simp add: memEnv_codec memArchive_def nginxChart_def mkMetadata_def)
  have j: "PutContent ?E ?v ?new (world ?st) = (None, [?v \<mapsto> ?new])"
    by (simp add: memEnv_content)
  have k: "CoalesceMetadata ?E (nginxChart\<lparr>chart_Metadata := Some (Metadata ?md)\<rparr>) = Inr ?md"
    by (simp add: memEnv_codec)
  have um: "UpdateMetadata ?E ?r ?st =
              ((Some ?md, None),
               \<lparr>world = [?v \<mapsto> ?new], calls = [GetContentCall ?v, PutContentCall ?v ?new]\<rparr>)"
    using UpdateMetadata_persists [OF a b c d e f g i j] k by simp
  have b': "getValues ?E ?r = Inr ''[1,2]''"
    by (simp add: memEnv_request memRequest_def)
  have c': "JSONToYAML ?E ''[1,2]'' = Inr ''- 1 - 2''"
    by (simp add: memEnv_codec memJSONToYAML_def)
  have f': "chart_Values nginxChart = Some \<lparr>Raw = ''replicas: 1''\<rparr>"
    by (simp add: nginxChart_def)
  have g': "Archive ?E (nginxChart\<lparr>chart_Values := Some (\<lparr>Raw = ''replicas: 1''\<rparr>\<lparr>Raw := ''- 1 - 2''\<rparr>)\<rparr>) =
              Inr ?new'"
    by (simp add: memEnv_codec memArchive_def nginxChart_def mkMetadata_def)
  have h': "PutContent ?E ?v ?new' (world ?st) = (None, [?v \<mapsto> ?new'])"
    by (simp add: memEnv_content)
  have uv: "UpdateValues ?E ?r ?st =
              ((''[1,2]'', None),
               \<lparr>world = [?v \<mapsto> ?new'], calls = [GetContentCall ?v, PutContentCall ?v ?new']\<rparr>)"
    using UpdateValues_persists [OF a b' c' c d f' g' h'] by simp
  have ids: "chart_Name (memChart ''s1'' ''web'') = ''web''" "version_Number ?v = ''9.9.9''"
    "Name (mkMetadata ''nginx'' ''1.0.0'' ''updated'') \<noteq> chart_Name (memChart ''s1'' ''web'')"
    "Version (mkMetadata ''nginx'' ''1.0.0'' ''updated'') \<noteq> version_Number ?v"
    by (simp_all add: memChart_def memVersion_def mkMetadata_def)
  from a um uv ids show ?thesis
    by (intro conjI)
qed

text \<open>
  C3, as the code has it. A metadata or values update that succeeds never changes the
  name and the version embedded in the archive: the archive written back carries the name
  and version of the archive that was read (for a metadata update these are also the
  candidate's). So an archive that agreed with \<open>chart.Name()\<close> and \<open>version.Number()\<close> before
  the update agrees with them after it.
\<close>

theorem mutation_keeps_archive_identity:
  "(UpdateMetadata E ctx st = ((result, None), st') \<longrightarrow>
      (\<exists>sp ch v md data origin om mutated data' w'.
         resolveVersion E ctx = Inr (sp, ch, v) \<and> getMetadata E ctx = Inr md \<and>
         GetContent E v (world st) = Inr data \<and> LoadArchive E data = Inr origin \<and>
         chart_Metadata origin = Some om \<and>
         mutated = origin\<lparr>chart_Metadata := Some (Metadata md)\<rparr> \<and>
         Archive E mutated = Inr data' \<and>
         PutContent E v data' (world st) = (None, w') \<and>
         st' = st\<lparr>world := w', calls := calls st @ [GetContentCall v, PutContentCall v data']\<rparr> \<and>
         map_option Name (chart_Metadata mutated) = Some (Name om) \<and>
         map_option Version (chart_Metadata mutated) = Some (Version om) \<and>
         (Name om = chart_Name ch \<and> Version om = version_Number v \<longrightarrow>
            map_option Name (chart_Metadata mutated) = Some (chart_Name ch) \<and>
            map_option Version (chart_Metadata mutated) = Some (version_Number v)))) \<and>
   (UpdateValues E ctx st = ((payload, None), st'') \<longrightarrow>
      (\<exists>sp ch v y data origin cfg mutated data' w'.
         resolveVersion E ctx = Inr (sp, ch, v) \<and> getValues E ctx = Inr payload \<and>
         JSONToYAML E payload = Inr y \<and>
         GetContent E v (world st) = Inr data \<and> LoadArchive E data = Inr origin \<and>
         chart_Values origin = Some cfg \<and>
         mutated = origin\<lparr>chart_Values := Some (cfg\<lparr>Raw := y\<rparr>)\<rparr> \<and>
         Archive E mutated = Inr data' \<and>
         PutContent E v data' (world st) = (None, w') \<and>
         st'' = st\<lparr>world := w', calls := calls st @ [GetContentCall v, PutContentCall v data']\<rparr> \<and>
         chart_Metadata mutated = chart_Metadata origin))"
proof (intro conjI impI)
  assume run: "UpdateMetadata E ctx st = ((result, None), st')"
  then have "snd (fst (UpdateMetadata E ctx st)) = None"
    by simp
  with UpdateMetadata_dichotomy [of E ctx st]
  obtain sp ch v md data origin om data' r w' where
    h: "resolveVersion E ctx = Inr (sp, ch, v)" "getMetadata E ctx = Inr md"
       "GetContent E v (world st) = Inr data" "LoadArchive E data = Inr origin"
       "chart_Metadata origin = Some om"
       "Archive E (origin\<lparr>chart_Metadata := Some (Metadata md)\<rparr>) = Inr data'"
    and same: "Name om = Name (Metadata md)" "Version om = Version (Metadata md)"
    and put: "PutContent E v data' (world st) = (r, w')"
    and res: "UpdateMetadata E ctx st =
        ((case r of
            Some e \<Rightarrow> (None, Some e)
          | None \<Rightarrow>
              (case CoalesceMetadata E (origin\<lparr>chart_Metadata := Some (Metadata md)\<rparr>) of
                 Inl e \<Rightarrow> (None, Some e)
               | Inr m \<Rightarrow> (Some m, None))),
         st\<lparr>world := w', calls := calls st @ [GetContentCall v, PutContentCall v data']\<rparr>)"
    by blast
  from res run have r: "r = None"
    by (cases r) auto
  from res run have st': "st' = st\<lparr>world := w', calls := calls st @ [GetContentCall v, PutContentCall v data']\<rparr>"
    by simp
  show "\<exists>sp ch v md data origin om mutated data' w'.
         resolveVersion E ctx = Inr (sp, ch, v) \<and> getMetadata E ctx = Inr md \<and>
         GetContent E v (world st) = Inr data \<and> LoadArchive E data = Inr origin \<and>
         chart_Metadata origin = Some om \<and>
         mutated = origin\<lparr>chart_Metadata := Some (Metadata md)\<rparr> \<and>
         Archive E mutated = Inr data' \<and>
         PutContent E v data' (world st) = (None, w') \<and>
         st' = st\<lparr>world := w', calls := calls st @ [GetContentCall v, PutContentCall v data']\<rparr> \<and>
         map_option Name (chart_Metadata mutated) = Some (Name om) \<and>
         map_option Version (chart_Metadata mutated) = Some (Version om) \<and>
         (Name om = chart_Name ch \<and> Version om = version_Number v \<longrightarrow>
            map_option Name (chart_Metadata mutated) = Some (chart_Name ch) \<and>
            map_option Version (chart_Metadata mutated) = Some (version_Number v))"
    using h same put r st'
    by (intro exI [of _ sp] exI [of _ ch] exI [of _ v] exI [of _ md] exI [of _ data]
        exI [of _ origin] exI [of _ om]
        exI [of _ "origin\<lparr>chart_Metadata := Some (Metadata md)\<rparr>"]
        exI [of _ data'] exI [of _ w']) simp
next
  assume run: "UpdateValues E ctx st = ((payload, None), st'')"
  then have "snd (fst (UpdateValues E ctx st)) = None"
    by simp
  with UpdateValues_dichotomy [of E ctx st]
  obtain sp ch v payload' y data origin cfg data' r w' where
    h: "resolveVersion E ctx = Inr (sp, ch, v)" "getValues E ctx = Inr payload'"
       "JSONToYAML E payload' = Inr y"
       "GetContent E v (world st) = Inr data" "LoadArchive E data = Inr origin"
       "chart_Values origin = Some cfg"
       "Archive E (origin\<lparr>chart_Values := Some (cfg\<lparr>Raw := y\<rparr>)\<rparr>) = Inr data'"
    and put: "PutContent E v data' (world st) = (r, w')"
    and res: "UpdateValues E ctx st =
                ((payload', r),
                 st\<lparr>world := w', calls := calls st @ [GetContentCall v, PutContentCall v data']\<rparr>)"
    by blast
  from res run have eq: "payload' = payload" "r = None"
    "st'' = st\<lparr>world := w', calls := calls st @ [GetContentCall v, PutContentCall v data']\<rparr>"
    by simp_all
  show "\<exists>sp ch v y data origin cfg mutated data' w'.
         resolveVersion E ctx = Inr (sp, ch, v) \<and> getValues E ctx = Inr payload \<and>
         JSONToYAML E payload = Inr y \<and>
         GetContent E v (world st) = Inr data \<and> LoadArchive E data = Inr origin \<and>
         chart_Values origin = Some cfg \<and>
         mutated = origin\<lparr>chart_Values := Some (cfg\<lparr>Raw := y\<rparr>)\<rparr> \<and>
         Archive E mutated = Inr data' \<and>
         PutContent E v data' (world st) = (None, w') \<and>
         st'' = st\<lparr>world := w', calls := calls st @ [GetContentCall v, PutContentCall v data']\<rparr> \<and>
         chart_Metadata mutated = chart_Metadata origin"
    using h put eq
    by (intro exI [of _ sp] exI [of _ ch] exI [of _ v] exI [of _ y] exI [of _ data]
        exI [of _ origin] exI [of _ cfg]
        exI [of _ "origin\<lparr>chart_Values := Some (cfg\<lparr>Raw := y\<rparr>)\<rparr>"]
        exI [of _ data'] exI [of _ w']) simp
qed

theorem mutation_keeps_archive_identity_witness:
  "UpdateMetadata (memEnv []) (memRequest ''s1'' ''nginx'' ''1.0.0'')
     \<lparr>world = [memVersion ''s1'' ''nginx'' ''1.0.0'' \<mapsto> ''nginx-1.0.0.tgz''], calls = []\<rparr> =
     ((Some \<lparr>Metadata = mkMetadata ''nginx'' ''1.0.0'' ''updated''\<rparr>, None),
      \<lparr>world = [memVersion ''s1'' ''nginx'' ''1.0.0'' \<mapsto> ''nginx-1.0.0:updated:replicas: 1''],
       calls = [GetContentCall (memVersion ''s1'' ''nginx'' ''1.0.0''),
                PutContentCall (memVersion ''s1'' ''nginx'' ''1.0.0'')
                  ''nginx-1.0.0:updated:replicas: 1'']\<rparr>) \<and>
   (\<exists>origin mutated.
      LoadArchive (memEnv [] :: (request, version_handle \<rightharpoonup> bytes) env) ''nginx-1.0.0.tgz'' =
        Inr origin \<and>
      mutated = origin\<lparr>chart_Metadata := Some (mkMetadata ''nginx'' ''1.0.0'' ''updated'')\<rparr> \<and>
      map_option Name (chart_Metadata mutated) = Some (chart_Name (memChart ''s1'' ''nginx'')) \<and>
      map_option Version (chart_Metadata mutated) =
        Some (version_Number (memVersion ''s1'' ''nginx'' ''1.0.0'')))"
proof -
  let ?E = "memEnv [] :: (request, version_handle \<rightharpoonup> bytes) env"
  let ?v = "memVersion ''s1'' ''nginx'' ''1.0.0''"
  let ?ch = "memChart ''s1'' ''nginx''"
  let ?md = "\<lparr>Metadata = mkMetadata ''nginx'' ''1.0.0'' ''updated''\<rparr>"
  let ?r = "memRequest ''s1'' ''nginx'' ''1.0.0''"
  let ?st = "\<lparr>world = [?v \<mapsto> ''nginx-1.0.0.tgz''], calls = []\<rparr>"
  let ?om = "mkMetadata ''nginx'' ''1.0.0'' ''web server''"
  let ?new = "''nginx-1.0.0:updated:replicas: 1''"
  let ?st' = "\<lparr>world = [?v \<mapsto> ?new], calls = [GetContentCall ?v, PutContentCall ?v ?new]\<rparr>"
  have a: "resolveVersion ?E ?r = Inr (''s1'', ?ch, ?v)"
    by (simp add: memEnv_request memRequest_def)
  have b: "getMetadata ?E ?r = Inr ?md"
    by (simp add: memEnv_request memRequest_def)
  have c: "GetContent ?E ?v (world ?st) = Inr ''nginx-1.0.0.tgz''"
    by (simp add: memEnv_content)
  have d: "LoadArchive ?E ''nginx-1.0.0.tgz'' = Inr nginxChart"
    by (simp add: memEnv_codec memLoadArchive_def)
  have e: "chart_Metadata nginxChart = Some ?om"
    by (simp add: nginxChart_def)
  have f: "Name ?om = Name (Metadata ?md)" and g: "Version ?om = Version (Metadata ?md)"
    by (simp_all add: mkMetadata_def)
  have i: "Archive ?E (nginxChart\<lparr>chart_Metadata := Some (Metadata ?md)\<rparr>) = Inr ?new"
    by (simp add: memEnv_codec memArchive_def nginxChart_def mkMetadata_def)
  have j: "PutContent ?E ?v ?new (world ?st) = (None, [?v \<mapsto> ?new])"
    by (simp add: memEnv_content)
  have k: "CoalesceMetadata ?E (nginxChart\<lparr>chart_Metadata := Some (Metadata ?md)\<rparr>) = Inr ?md"
    by (simp add: memEnv_codec)
  have run: "UpdateMetadata ?E ?r ?st = ((Some ?md, None), ?st')"
    using UpdateMetadata_persists [OF a b c d e f g i j] k by simp
  have "\<exists>sp ch v md data origin om mutated data' w'.
         resolveVersion ?E ?r = Inr (sp, ch, v) \<and> getMetadata ?E ?r = Inr md \<and>
         GetContent ?E v (world ?st) = Inr data \<and> LoadArchive ?E data = Inr origin \<and>
         chart_Metadata origin = Some om \<and>
         mutated = origin\<lparr>chart_Metadata := Some (Metadata md)\<rparr> \<and>
         Archive ?E mutated = Inr data' \<and>
         PutContent ?E v data' (world ?st) = (None, w') \<and>
         ?st' = ?st\<lparr>world := w', calls := calls ?st @ [GetContentCall v, PutContentCall v data']\<rparr> \<and>
         map_option Name (chart_Metadata mutated) = Some (Name om) \<and>
         map_option Version (chart_Metadata mutated) = Some (Version om) \<and>
         (Name om = chart_Name ch \<and> Version om = version_Number v \<longrightarrow>
            map_option Name (chart_Metadata mutated) = Some (chart_Name ch) \<and>
            map_option Version (chart_Metadata mutated) = Some (version_Number v))"
    using mutation_keeps_archive_identity
      [where E = ?E and ctx = ?r and st = ?st and result = "Some ?md" and st' = ?st',
        THEN conjunct1, rule_format, OF run] .
  then obtain sp ch v md data origin om mutated where
    h: "resolveVersion ?E ?r = Inr (sp, ch, v)" "getMetadata ?E ?r = Inr md"
       "GetContent ?E v (world ?st) = Inr data" "LoadArchive ?E data = Inr origin"
       "chart_Metadata origin = Some om"
       "mutated = origin\<lparr>chart_Metadata := Some (Metadata md)\<rparr>"
    and keep: "Name om = chart_Name ch \<and> Version om = version_Number v \<longrightarrow>
                 map_option Name (chart_Metadata mutated) = Some (chart_Name ch) \<and>
                 map_option Version (chart_Metadata mutated) = Some (version_Number v)"
    by (elim exE conjE)
  have hv: "ch = ?ch" "v = ?v"
    using h(1) [unfolded a] by auto
  have hmd: "md = ?md"
    using h(2) [unfolded b] by auto
  have hd: "data = ''nginx-1.0.0.tgz''"
    using h(3) [unfolded hv c] by auto
  have ho: "origin = nginxChart"
    using h(4) [unfolded hd d] by auto
  have hom: "om = ?om"
    using h(5) [unfolded ho e] by auto
  have "Name om = chart_Name ch \<and> Version om = version_Number v"
    unfolding hom hv by (simp add: mkMetadata_def memChart_def memVersion_def)
  with keep have
    "map_option Name (chart_Metadata mutated) = Some (chart_Name ?ch) \<and>
     map_option Version (chart_Metadata mutated) = Some (version_Number ?v)"
    unfolding hv by blast
  moreover have "mutated = nginxChart\<lparr>chart_Metadata := Some (mkMetadata ''nginx'' ''1.0.0'' ''updated'')\<rparr>"
    using h(6) ho hmd by simp
  ultimately have
    "LoadArchive ?E ''nginx-1.0.0.tgz'' = Inr nginxChart \<and>
     mutated = nginxChart\<lparr>chart_Metadata := Some (mkMetadata ''nginx'' ''1.0.0'' ''updated'')\<rparr> \<and>
     map_option Name (chart_Metadata mutated) = Some (chart_Name ?ch) \<and>
     map_option Version (chart_Metadata mutated) = Some (version_Number ?v)"
    using d by simp
  then have "\<exists>origin mutated.
      LoadArchive ?E ''nginx-1.0.0.tgz'' = Inr origin \<and>
      mutated = origin\<lparr>chart_Metadata := Some (mkMetadata ''nginx'' ''1.0.0'' ''updated'')\<rparr> \<and>
      map_option Name (chart_Metadata mutated) = Some (chart_Name ?ch) \<and>
      map_option Version (chart_Metadata mutated) = Some (version_Number ?v)"
    by (intro exI [of _ nginxChart] exI [of _ mutated])
  with run show ?thesis
    by (intro conjI)
qed

end
